theory Spec2Isabelle
  imports Complex_Main
begin

section \<open>Strings of the host language\<close>

text \<open>
  A JavaScript string is a sequence of UTF-16 code units; \<open>length\<close>, \<open>slice\<close> and
  \<open>startsWith\<close> count code units, while a regular expression with the \<open>u\<close> flag walks
  the string code point by code point. A code unit is a natural number below \<open>0x10000\<close>;
  the functions below are total on all lists, and every concrete input used later is
  well formed. Literals of the source are ASCII and are embedded with \<open>js\<close>.
\<close>

type_synonym jsstring = "nat list"

definition js :: "string \<Rightarrow> jsstring" where
  "js s = map of_char s"

definition startsWith :: "jsstring \<Rightarrow> jsstring \<Rightarrow> bool" where
  "startsWith s p = (take (length p) s = p)"

text \<open>\<open>isDefined = i => !!i\<close> on a value that is \<open>undefined\<close> or a string: the empty
  string is falsy.\<close>

definition isDefined :: "jsstring option \<Rightarrow> bool" where
  "isDefined i = (case i of None \<Rightarrow> False | Some s \<Rightarrow> s \<noteq> [])"

text \<open>The string held by a value that \<open>isDefined\<close> has already accepted.\<close>

definition orEmpty :: "jsstring option \<Rightarrow> jsstring" where
  "orEmpty i = (case i of None \<Rightarrow> [] | Some s \<Rightarrow> s)"

text \<open>Conversion of a number to a string, as \<open>+\<close> between a number and a string does
  for a non-negative integer.\<close>

fun decimal :: "nat \<Rightarrow> string" where
  "decimal n =
     (if n < 10 then [char_of (48 + n)]
      else decimal (n div 10) @ [char_of (48 + n mod 10)])"

declare decimal.simps [simp del]

section \<open>Tag sanitizer\<close>

definition MAX_TAG_VALUE_LENGTH :: nat where
  "MAX_TAG_VALUE_LENGTH = 256"

definition SANITIZATION_CHARACTER :: nat where
  "SANITIZATION_CHARACTER = of_char CHR ''_''"

text \<open>\<open>actor.replace(/\[|\]/g, SANITIZATION_CHARACTER)\<close>: no \<open>u\<close> flag, one code unit
  at a time.\<close>

definition sanitizeGithubActor :: "jsstring \<Rightarrow> jsstring" where
  "sanitizeGithubActor actor =
     map (\<lambda>u. if u = of_char CHR ''['' \<or> u = of_char CHR '']''
              then SANITIZATION_CHARACTER else u) actor"

text \<open>
  The property escapes \<open>\p{L}\<close>, \<open>\p{Z}\<close> and \<open>\p{N}\<close> are decided by the Unicode
  tables of the JavaScript engine, which are not part of the repository: they are a
  parameter, three predicates on code points.
\<close>

record unicode =
  isL :: "nat \<Rightarrow> bool"
  isZ :: "nat \<Rightarrow> bool"
  isN :: "nat \<Rightarrow> bool"

text \<open>
  The class of \<open>/[^\p{L}\p{Z}\p{N}_:/=+.-@-]/gu\<close> read without its negation: the three
  property escapes, the literals \<open>_ : / = +\<close>, the range from \<open>.\<close> to \<open>@\<close>
  (\<open>0x2E\<close> to \<open>0x40\<close>) and the final literal \<open>-\<close>.
\<close>

definition tagChar :: "unicode \<Rightarrow> nat \<Rightarrow> bool" where
  "tagChar U c =
     (isL U c \<or> isZ U c \<or> isN U c
      \<or> c = of_char CHR ''_'' \<or> c = of_char CHR '':'' \<or> c = of_char CHR ''/''
      \<or> c = of_char CHR ''='' \<or> c = of_char CHR ''+''
      \<or> (of_char CHR ''.'' \<le> c \<and> c \<le> of_char CHR ''@'')
      \<or> c = of_char CHR ''-'')"

definition isLead :: "nat \<Rightarrow> bool" where
  "isLead u = (0xD800 \<le> u \<and> u \<le> 0xDBFF)"

definition isTrail :: "nat \<Rightarrow> bool" where
  "isTrail u = (0xDC00 \<le> u \<and> u \<le> 0xDFFF)"

definition codePoint :: "nat \<Rightarrow> nat \<Rightarrow> nat" where
  "codePoint u v = 0x10000 + (u - 0xD800) * 0x400 + (v - 0xDC00)"

text \<open>The code points of a string, as a \<open>u\<close>-flag regular expression reads them: a lead
  surrogate followed by a trail surrogate is one code point, every other code unit
  (an unpaired surrogate too) is a code point of its own.\<close>

fun codePoints :: "jsstring \<Rightarrow> nat list" where
  "codePoints [] = []"
| "codePoints [u] = [u]"
| "codePoints (u # v # rest) =
     (if isLead u \<and> isTrail v then codePoint u v # codePoints rest
      else u # codePoints (v # rest))"

text \<open>\<open>name.replace(/[^\p{L}\p{Z}\p{N}_:/=+.-@-]/gu, SANITIZATION_CHARACTER)\<close>: every
  code point outside the class is replaced, whether it takes one code unit or two.\<close>

fun replaceSpecialCharacters :: "unicode \<Rightarrow> jsstring \<Rightarrow> jsstring" where
  "replaceSpecialCharacters U [] = []"
| "replaceSpecialCharacters U [u] = [if tagChar U u then u else SANITIZATION_CHARACTER]"
| "replaceSpecialCharacters U (u # v # rest) =
     (if isLead u \<and> isTrail v
      then (if tagChar U (codePoint u v)
            then u # v # replaceSpecialCharacters U rest
            else SANITIZATION_CHARACTER # replaceSpecialCharacters U rest)
      else (if tagChar U u then u else SANITIZATION_CHARACTER)
             # replaceSpecialCharacters U (v # rest))"

definition sanitizeGithubWorkflowName :: "unicode \<Rightarrow> jsstring \<Rightarrow> jsstring" where
  "sanitizeGithubWorkflowName U name =
     (let nameWithoutSpecialCharacters = replaceSpecialCharacters U name;
          nameTruncated = take MAX_TAG_VALUE_LENGTH nameWithoutSpecialCharacters
      in nameTruncated)"

text \<open>The cut after \<open>n\<close> code units falls inside a surrogate pair.\<close>

definition cutsPair :: "nat \<Rightarrow> jsstring \<Rightarrow> bool" where
  "cutsPair n t = (0 < n \<and> n < length t \<and> isLead (t ! (n - 1)) \<and> isTrail (t ! n))"

text \<open>Some rows of the Unicode tables, to run the sanitizer on concrete inputs: the
  letters \<open>A-Z\<close> and \<open>a-z\<close> and the Deseret letters \<open>U+10400\<close> to \<open>U+1044F\<close> (category
  L), the space (category Z), the digits \<open>0-9\<close> (category N). The other code points of
  the inputs used below, the surrogates \<open>U+D800\<close> to \<open>U+DFFF\<close> and the emoji \<open>U+1F600\<close>,
  are in none of the three categories, in Unicode as in these rows.\<close>

definition sampleRows :: unicode where
  "sampleRows =
     \<lparr> isL = (\<lambda>c. (65 \<le> c \<and> c \<le> 90) \<or> (97 \<le> c \<and> c \<le> 122) \<or> (0x10400 \<le> c \<and> c \<le> 0x1044F)),
       isZ = (\<lambda>c. c = 32),
       isN = (\<lambda>c. 48 \<le> c \<and> c \<le> 57) \<rparr>"

section \<open>Effects and errors\<close>

text \<open>A thrown value: Node's \<open>AssertionError\<close> (from \<open>assert\<close>), an \<open>Error\<close> built by
  the code, a \<open>TypeError\<close> of the engine, or an error raised by a library or a remote
  service. Each carries its \<open>message\<close>.\<close>

datatype error =
    AssertionError jsstring
  | Error jsstring
  | TypeError jsstring
  | ServiceError jsstring

fun message :: "error \<Rightarrow> jsstring" where
  "message (AssertionError m) = m"
| "message (Error m) = m"
| "message (TypeError m) = m"
| "message (ServiceError m) = m"

section \<open>Retry/backoff executor\<close>

text \<open>
  The executor is generic in the operation \<open>fn\<close> and in what \<open>fn\<close> does. An operation is
  given by the outcome and the effects of its \<open>k\<close>-th invocation (counted from 0);
  \<open>Math.random()\<close> is given by the draw made after invocation \<open>k\<close>, a real number. The
  state counts the invocations made and collects the effects, oldest first; \<open>sleep\<close>
  appends the requested delay in milliseconds. The counters \<open>retries\<close>, \<open>maxRetries\<close> and
  \<open>base\<close> are natural numbers (the defaults are 0, 12 and 50, and no caller passes
  others). The recursion may go on forever, so the result is an option and \<open>None\<close> means
  that the call never returns.
\<close>

record 'ev exec_state =
  calls :: nat
  trace :: "'ev list"

partial_function (option) retryAndBackoff ::
  "(real \<Rightarrow> 'ev) \<Rightarrow> (nat \<Rightarrow> real) \<Rightarrow> (nat \<Rightarrow> ('e + 'a) \<times> 'ev list) \<Rightarrow> bool \<Rightarrow> nat \<Rightarrow> nat \<Rightarrow> nat
     \<Rightarrow> 'ev exec_state \<Rightarrow> (('e + 'a) \<times> 'ev exec_state) option" where
  "retryAndBackoff sleep random fn isRetryable retries maxRetries base st =
     (case fn (calls st) of (outcome, effects) \<Rightarrow>
        let st1 = st\<lparr>calls := Suc (calls st), trace := trace st @ effects\<rparr> in
        (case outcome of
           Inr v \<Rightarrow> Some (Inr v, st1)
         | Inl err \<Rightarrow>
             if \<not> isRetryable then Some (Inl err, st1)
             else
               let st2 = st1\<lparr>trace := trace st1 @
                               [sleep (random (calls st) * (2 ^ retries * real base))]\<rparr>;
                   retries' = retries + 1
               in if retries' = maxRetries then Some (Inl err, st2)
                  else retryAndBackoff sleep random fn isRetryable retries' maxRetries base st2))"

text \<open>What \<open>n\<close> failed attempts in a row leave in the trace when the first of them is
  invocation \<open>c\<close> and is made with the counter at \<open>retries\<close>: for each attempt the
  effects of the operation, then the one \<open>sleep\<close> that follows the failure.\<close>

definition attemptEffects ::
  "(real \<Rightarrow> 'ev) \<Rightarrow> (nat \<Rightarrow> real) \<Rightarrow> (nat \<Rightarrow> ('e + 'a) \<times> 'ev list) \<Rightarrow> nat \<Rightarrow> nat \<Rightarrow> nat \<Rightarrow> nat \<Rightarrow> 'ev list" where
  "attemptEffects sleep random fn retries base c i =
     snd (fn (c + i)) @ [sleep (random (c + i) * (2 ^ (retries + i) * real base))]"

definition failedEffects ::
  "(real \<Rightarrow> 'ev) \<Rightarrow> (nat \<Rightarrow> real) \<Rightarrow> (nat \<Rightarrow> ('e + 'a) \<times> 'ev list) \<Rightarrow> nat \<Rightarrow> nat \<Rightarrow> nat \<Rightarrow> nat \<Rightarrow> 'ev list" where
  "failedEffects sleep random fn retries base c n =
     concat (map (attemptEffects sleep random fn retries base c) [0..<n])"

text \<open>The effects of the executor's operation and of a whole run: calls to the host
  platform (\<open>core.debug\<close>, \<open>core.getIDToken\<close>, \<open>core.setSecret\<close>,
  \<open>core.exportVariable\<close>, \<open>core.setFailed\<close>), to the SDK (\<open>sts.send\<close> with the region
  of the client, \<open>signer.presign\<close>), to the broker (\<open>axios.post\<close> with the endpoint and
  the two fields of the body) and to \<open>sleep\<close>.\<close>

datatype command = AssumeRoleCommand | AssumeRoleWithWebIdentityCommand

datatype duration = Seconds nat | SecondsText jsstring

record tag =
  Key :: string
  Value :: jsstring

record assume_request =
  RoleArn :: jsstring
  RoleSessionName :: "jsstring option"
  DurationSeconds :: "duration option"
  Tags :: "tag list option"
  ExternalId :: "jsstring option"
  WebIdentityToken :: "jsstring option"

record http_request =
  requestMethod :: jsstring
  protocol :: jsstring
  hostname :: jsstring
  path :: jsstring
  headers :: "(string \<times> jsstring option) list"
  query :: "(string \<times> jsstring) list"
  body :: jsstring

datatype event =
    Debug jsstring
  | Sleep real
  | GetIDToken jsstring
  | StsSend jsstring command assume_request
  | Presign http_request
  | AxiosPost jsstring jsstring jsstring
  | SetSecret "jsstring option"
  | ExportVariable string "jsstring option"
  | SetFailed jsstring

text \<open>\<open>type Credentials\<close>. The declared type makes the first two fields strings, but the
  values are copied from responses typed \<open>any\<close>, so each field may be \<open>undefined\<close>.\<close>

record credentials =
  accessKeyId :: "jsstring option"
  secretAccessKey :: "jsstring option"
  sessionToken :: "jsstring option"

record sts_credentials =
  AccessKeyId :: "jsstring option"
  SecretAccessKey :: "jsstring option"
  SessionToken :: "jsstring option"

record sts_response =
  Credentials :: "sts_credentials option"

text \<open>The \<open>data\<close> of the broker's response: \<open>null\<close> or \<open>undefined\<close>, or any other value,
  of which the three properties are read (\<open>undefined\<close> when it does not have them).\<close>

datatype response_data =
    NoData
  | Data "jsstring option" "jsstring option" "jsstring option"

datatype file_state = Absent | Unreadable jsstring | Contents jsstring

text \<open>
  What a run finds around it. None of it is code of the repository: the process
  environment, the inputs and the identity token of the host platform, Node's \<open>path\<close>
  and \<open>fs\<close> modules, the STS service (the outcome of the \<open>k\<close>-th attempt's \<open>send\<close>),
  the SDK's request builder, signer and URL formatter, the broker behind \<open>axios.post\<close>,
  and \<open>Math.random\<close>. \<open>core.exportVariable\<close> also writes the process environment, but a
  run reads no entry that it writes, so the environment is a constant of the run. The
  calls to \<open>core\<close> other than \<open>getInput\<close> and \<open>getIDToken\<close> are taken not to throw. A file
  is \<open>Absent\<close> when \<open>fs.existsSync\<close> is false, \<open>Unreadable\<close> with the message of the error
  when it exists and \<open>readFile\<close> rejects.
\<close>

record world =
  unicodeTables :: unicode
  env :: "string \<Rightarrow> jsstring option"
  getInput :: "string \<Rightarrow> bool \<Rightarrow> error + jsstring"
  getIDToken :: "jsstring \<Rightarrow> error + jsstring"
  isAbsolute :: "jsstring \<Rightarrow> bool"
  pathJoin :: "jsstring \<Rightarrow> jsstring \<Rightarrow> jsstring"
  files :: "jsstring \<Rightarrow> file_state"
  stsSend :: "nat \<Rightarrow> jsstring \<Rightarrow> command \<Rightarrow> assume_request \<Rightarrow> error + sts_response"
  createRequest :: "jsstring \<Rightarrow> credentials \<Rightarrow> error + http_request"
  presign :: "http_request \<Rightarrow> error + http_request"
  formatUrl :: "http_request \<Rightarrow> jsstring"
  axiosPost :: "jsstring \<Rightarrow> jsstring \<Rightarrow> jsstring \<Rightarrow> error + response_data"
  mathRandom :: "nat \<Rightarrow> real"

section \<open>Role assumption client\<close>

definition DEFAULT_ROLE_DURATION_FOR_OIDC_ROLES :: nat where
  "DEFAULT_ROLE_DURATION_FOR_OIDC_ROLES = 3600"

definition ROLE_SESSION_NAME :: jsstring where
  "ROLE_SESSION_NAME = js ''GitHubActions''"

definition LAMBDA_URL :: jsstring where
  "LAMBDA_URL = js []"

text \<open>\<open>params: any\<close> of \<open>assumeRole\<close>, with the types of the values its caller passes:
  strings (or \<open>undefined\<close>), and for the duration a number or the text of the input.\<close>

record params =
  sourceAccountId :: "jsstring option"
  roleToAssume :: "jsstring option"
  roleExternalId :: "jsstring option"
  roleDurationSeconds :: "duration option"
  roleSessionName :: "jsstring option"
  region :: "jsstring option"
  webIdentityTokenFile :: "jsstring option"
  webIdentityToken :: "jsstring option"

definition isDefinedDuration :: "duration option \<Rightarrow> bool" where
  "isDefinedDuration i =
     (case i of None \<Rightarrow> False | Some (Seconds n) \<Rightarrow> n \<noteq> 0 | Some (SecondsText s) \<Rightarrow> s \<noteq> [])"

definition getRoleToAssume :: "world \<Rightarrow> error + jsstring" where
  "getRoleToAssume w =
     (if \<not> isDefined (env w ''GITHUB_REPOSITORY'')
      then Inl (AssertionError (js ''GITHUB_REPOSITORY must be defined.''))
      else Inr (js ''arn:aws:iam::<SOME_ACCOUNT>:role/github-''
                  @ orEmpty (env w ''GITHUB_REPOSITORY'')))"

text \<open>Lines 109 to 117 of \<open>assumeRole\<close>: the role ARN of the request.\<close>

definition resolveRoleArn :: "jsstring \<Rightarrow> jsstring option \<Rightarrow> error + jsstring" where
  "resolveRoleArn roleArn sourceAccount =
     (if \<not> startsWith roleArn (js ''arn:aws'')
      then (if \<not> isDefined sourceAccount
            then Inl (AssertionError (js
              ''Source Account ID is needed if the Role Name is provided and not the Role Arn.''))
            else Inr (js ''arn:aws:iam::'' @ orEmpty sourceAccount @ js '':role/'' @ roleArn))
      else Inr roleArn)"

text \<open>Lines 119 to 130: the session tags, read from the process environment.\<close>

definition roleSessionTags :: "world \<Rightarrow> tag list" where
  "roleSessionTags w =
     [ \<lparr>Key = ''GitHub'', Value = js ''Actions''\<rparr>,
       \<lparr>Key = ''Repository'', Value = orEmpty (env w ''GITHUB_REPOSITORY'')\<rparr>,
       \<lparr>Key = ''Workflow'',
        Value = sanitizeGithubWorkflowName (unicodeTables w) (orEmpty (env w ''GITHUB_WORKFLOW''))\<rparr>,
       \<lparr>Key = ''Action'', Value = orEmpty (env w ''GITHUB_ACTION'')\<rparr>,
       \<lparr>Key = ''Actor'', Value = sanitizeGithubActor (orEmpty (env w ''GITHUB_ACTOR''))\<rparr>,
       \<lparr>Key = ''Commit'', Value = orEmpty (env w ''GITHUB_SHA'')\<rparr> ]
     @ (if isDefined (env w ''GITHUB_REF'')
        then [\<lparr>Key = ''Branch'', Value = orEmpty (env w ''GITHUB_REF'')\<rparr>] else [])"

text \<open>Lines 159 to 161: the path of the token file. \<open>path.join\<close> throws when the
  workspace root is \<open>undefined\<close>; Node words the message (with quotation marks around
  the word path).\<close>

definition webIdentityTokenFilePath :: "world \<Rightarrow> jsstring \<Rightarrow> error + jsstring" where
  "webIdentityTokenFilePath w tokenFile =
     (if isAbsolute w tokenFile then Inr tokenFile
      else (case env w ''GITHUB_WORKSPACE'' of
              None \<Rightarrow> Inl (TypeError (js
                ''The path argument must be of type string. Received undefined''))
            | Some workspace \<Rightarrow> Inr (pathJoin w workspace tokenFile)))"

text \<open>Line 176 applies the command class to the request as a function,
  \<open>assumeFunction(assumeRoleRequest)\<close>, where line 236 writes
  \<open>new GetCallerIdentityCommand({})\<close>. A class constructor that is called without \<open>new\<close>
  throws a \<open>TypeError\<close> before its body runs, whatever the argument.\<close>

fun className :: "command \<Rightarrow> string" where
  "className AssumeRoleCommand = ''AssumeRoleCommand''"
| "className AssumeRoleWithWebIdentityCommand = ''AssumeRoleWithWebIdentityCommand''"

definition callWithoutNew :: "command \<Rightarrow> assume_request \<Rightarrow> error + command \<times> assume_request" where
  "callWithoutNew commandClass input =
     Inl (TypeError (js ''Class constructor '' @ js (className commandClass)
                       @ js '' cannot be invoked without 'new'' @ js [CHR 0x27]))"

text \<open>Lines 176 to 183: the argument of \<open>sts.send\<close> is evaluated first; a command would
  then be sent by the client of the region and the three credential fields taken out of
  the response, where destructuring throws when the response has no \<open>Credentials\<close>.\<close>

definition sendAssume ::
  "world \<Rightarrow> nat \<Rightarrow> jsstring \<Rightarrow> command \<Rightarrow> assume_request \<Rightarrow> (error + credentials) \<times> event list" where
  "sendAssume w k clientRegion assumeFunction assumeRoleRequest =
     (case callWithoutNew assumeFunction assumeRoleRequest of
        Inl err \<Rightarrow> (Inl err, [])
      | Inr (commandClass, input) \<Rightarrow>
          (case stsSend w k clientRegion commandClass input of
             Inl err \<Rightarrow> (Inl err, [StsSend clientRegion commandClass input])
           | Inr response \<Rightarrow>
               (case Credentials response of
                  None \<Rightarrow> (Inl (TypeError (js
                      ''Cannot destructure property 'AccessKeyId' of 'undefined' as it is undefined.'')),
                    [StsSend clientRegion commandClass input])
                | Some c \<Rightarrow>
                    (Inr \<lparr>accessKeyId = AccessKeyId c, secretAccessKey = SecretAccessKey c,
                          sessionToken = SessionToken c\<rparr>,
                     [StsSend clientRegion commandClass input]))))"

text \<open>Lines 96 to 174 of \<open>assumeRole\<close>: the assertions, the role ARN, the session tags
  and the request, down to the command class chosen (\<open>assumeFunction\<close>) and the request
  built (\<open>assumeRoleRequest\<close>), with the effects, oldest first. The branch of the token
  file leaves \<open>assumeFunction\<close> as it was.\<close>

definition prepareAssumeRole ::
  "world \<Rightarrow> params \<Rightarrow> (error + command \<times> assume_request) \<times> event list" where
  "prepareAssumeRole w p =
     (if \<not> (isDefined (roleToAssume p) \<and> isDefinedDuration (roleDurationSeconds p)
             \<and> isDefined (roleSessionName p) \<and> isDefined (region p))
      then (Inl (AssertionError (js ''Missing required input when assuming a Role.'')), [])
      else if \<not> list_all (\<lambda>name. isDefined (env w name))
                 [''GITHUB_REPOSITORY'', ''GITHUB_WORKFLOW'', ''GITHUB_ACTION'',
                  ''GITHUB_ACTOR'', ''GITHUB_SHA'']
      then (Inl (AssertionError (js
              ''Missing required environment value. Are you running in GitHub Actions?'')), [])
      else
        (case resolveRoleArn (orEmpty (roleToAssume p)) (sourceAccountId p) of
           Inl err \<Rightarrow> (Inl err, [])
         | Inr roleArn \<Rightarrow>
             let tags = roleSessionTags w;
                 used = Debug (js (decimal (length tags)) @ js '' role session tags are being used.'');
                 assumeRoleRequest =
                   \<lparr> RoleArn = roleArn,
                     RoleSessionName = roleSessionName p,
                     DurationSeconds = roleDurationSeconds p,
                     Tags = Some tags,
                     ExternalId = (if isDefined (roleExternalId p) then roleExternalId p else None),
                     WebIdentityToken = None \<rparr>
             in
               if isDefined (webIdentityToken p) then
                 (Inr (AssumeRoleWithWebIdentityCommand,
                       assumeRoleRequest\<lparr>Tags := None, WebIdentityToken := webIdentityToken p\<rparr>),
                  [used])
               else if isDefined (webIdentityTokenFile p) then
                 (let provided = Debug (js
                    ''webIdentityTokenFile provided. Will call sts:AssumeRoleWithWebIdentity and take session tags from token contents.'')
                  in case webIdentityTokenFilePath w (orEmpty (webIdentityTokenFile p)) of
                       Inl err \<Rightarrow> (Inl err, [used, provided])
                     | Inr tokenPath \<Rightarrow>
                         (case files w tokenPath of
                            Absent \<Rightarrow>
                              (Inl (Error (js ''Web identity token file does not exist: '' @ tokenPath)),
                               [used, provided])
                          | Unreadable why \<Rightarrow>
                              (Inl (Error (js ''Web identity token file could not be read: '' @ why)),
                               [used, provided])
                          | Contents token \<Rightarrow>
                              (Inr (AssumeRoleCommand,
                                    assumeRoleRequest\<lparr>Tags := None, WebIdentityToken := Some token\<rparr>),
                               [used, provided])))
               else (Inr (AssumeRoleCommand, assumeRoleRequest), [used])))"

text \<open>\<open>assumeRole\<close>, as its \<open>k\<close>-th invocation: the result and the effects, oldest first.\<close>

definition assumeRole :: "world \<Rightarrow> nat \<Rightarrow> params \<Rightarrow> (error + credentials) \<times> event list" where
  "assumeRole w k p =
     (case prepareAssumeRole w p of
        (Inl err, effects) \<Rightarrow> (Inl err, effects)
      | (Inr (assumeFunction, assumeRoleRequest), effects) \<Rightarrow>
          (case sendAssume w k (orEmpty (region p)) assumeFunction assumeRoleRequest of
             (result, sent) \<Rightarrow> (result, effects @ sent)))"

section \<open>Credential exporter\<close>

definition exportCredentials :: "world \<Rightarrow> credentials \<Rightarrow> event list" where
  "exportCredentials w c =
     [ SetSecret (accessKeyId c), ExportVariable ''AWS_ACCESS_KEY_ID'' (accessKeyId c),
       SetSecret (secretAccessKey c), ExportVariable ''AWS_SECRET_ACCESS_KEY'' (secretAccessKey c) ]
     @ (if isDefined (sessionToken c)
        then [SetSecret (sessionToken c), ExportVariable ''AWS_SESSION_TOKEN'' (sessionToken c)]
        else if isDefined (env w ''AWS_SESSION_TOKEN'')
        then [ExportVariable ''AWS_SESSION_TOKEN'' (Some (js []))]
        else [])"

definition exportRegion :: "jsstring \<Rightarrow> event list" where
  "exportRegion r =
     [ExportVariable ''AWS_DEFAULT_REGION'' (Some r), ExportVariable ''AWS_REGION'' (Some r)]"

section \<open>Request presigner\<close>

definition header :: "http_request \<Rightarrow> string \<Rightarrow> jsstring option" where
  "header request name = (case map_of (headers request) name of None \<Rightarrow> None | Some v \<Rightarrow> v)"

text \<open>The field \<open>method\<close> of the request is \<open>requestMethod\<close> here.
  \<open>createRequest\<close> builds the request of \<open>GetCallerIdentityCommand\<close> for the client
  of the region and the credentials; the four assignments follow; \<open>signer.presign\<close> is
  called with constant options.\<close>

definition presignGetCallerIdentity ::
  "world \<Rightarrow> jsstring \<Rightarrow> credentials \<Rightarrow> (error + jsstring) \<times> event list" where
  "presignGetCallerIdentity w r roleCredentials =
     (case createRequest w r roleCredentials of
        Inl err \<Rightarrow> (Inl err, [])
      | Inr created \<Rightarrow>
          let request = created
                \<lparr> requestMethod := js ''GET'',
                  headers := [(''host'', header created ''host'')],
                  query := [(''Action'', js ''GetCallerIdentity''), (''Version'', js ''2011-06-15'')],
                  body := js [] \<rparr>
          in (case presign w request of
                Inl err \<Rightarrow> (Inl err, [Presign request])
              | Inr presigned \<Rightarrow> (Inr (formatUrl w presigned), [Presign request])))"

section \<open>Credential broker client\<close>

text \<open>Reading a property of \<open>null\<close> or \<open>undefined\<close> throws; the engine words the message.\<close>

definition getCredentials ::
  "world \<Rightarrow> jsstring \<Rightarrow> jsstring \<Rightarrow> (error + credentials) \<times> event list" where
  "getCredentials w url accountName =
     (case axiosPost w LAMBDA_URL url accountName of
        Inl err \<Rightarrow> (Inl err, [AxiosPost LAMBDA_URL url accountName])
      | Inr NoData \<Rightarrow>
          (Inl (TypeError (js ''Cannot read properties of undefined (reading 'accessKeyId')'')),
           [AxiosPost LAMBDA_URL url accountName])
      | Inr (Data keyId secret token) \<Rightarrow>
          (Inr \<lparr>accessKeyId = keyId, secretAccessKey = secret, sessionToken = token\<rparr>,
           [AxiosPost LAMBDA_URL url accountName]))"

section \<open>The run\<close>

text \<open>\<open>region.match(REGION_REGEX)\<close> with \<open>/^[a-z0-9-]+$/g\<close>: \<open>match\<close> starts a global
  expression at index 0 on every call, and without the \<open>m\<close> flag the anchors are the two
  ends of the string, so the result is not \<open>null\<close> exactly when the string is not empty
  and all of its code units are in the class.\<close>

definition regionChar :: "nat \<Rightarrow> bool" where
  "regionChar u =
     ((of_char CHR ''a'' \<le> u \<and> u \<le> of_char CHR ''z'')
      \<or> (of_char CHR ''0'' \<le> u \<and> u \<le> of_char CHR ''9'')
      \<or> u = of_char CHR ''-'')"

definition matchesRegionRegex :: "jsstring \<Rightarrow> bool" where
  "matchesRegionRegex r = (r \<noteq> [] \<and> list_all regionChar r)"

text \<open>Lines 305 to 308 of \<open>run\<close>: signing with the credentials of the role, the exchange
  and the export. Each stage that throws ends the block.\<close>

definition exchangeAndExport ::
  "world \<Rightarrow> jsstring \<Rightarrow> jsstring \<Rightarrow> credentials \<Rightarrow> (error + unit) \<times> event list" where
  "exchangeAndExport w r accountName initialCredentials =
     (case presignGetCallerIdentity w r initialCredentials of
        (Inl err, signing) \<Rightarrow> (Inl err, signing)
      | (Inr url, signing) \<Rightarrow>
          (case getCredentials w url accountName of
             (Inl err, exchange) \<Rightarrow> (Inl err, signing @ exchange)
           | (Inr finalCredentials, exchange) \<Rightarrow>
               (Inr (), signing @ exchange @ exportCredentials w finalCredentials)))"

text \<open>Lines 294 to 309 of \<open>run\<close>, entered with the effects made so far: role assumption
  under the executor with its default counters, then the block above.\<close>

definition assumeAndExchange ::
  "world \<Rightarrow> jsstring \<Rightarrow> jsstring \<Rightarrow> params \<Rightarrow> event list \<Rightarrow> ((error + unit) \<times> event list) option" where
  "assumeAndExchange w r accountName p before =
     (case retryAndBackoff Sleep (mathRandom w) (\<lambda>k. assumeRole w k p) True 0 12 50
             \<lparr>calls = 0, trace = before\<rparr> of
        None \<Rightarrow> None
      | Some (Inl err, st) \<Rightarrow> Some (Inl err, trace st)
      | Some (Inr initialCredentials, st) \<Rightarrow>
          (case exchangeAndExport w r accountName initialCredentials of
             (out, after) \<Rightarrow> Some (out, trace st @ after)))"

text \<open>The \<open>try\<close> block of \<open>run\<close>: what it throws, if anything, and its effects.\<close>

definition runBody :: "world \<Rightarrow> ((error + unit) \<times> event list) option" where
  "runBody w =
     (case getInput w ''aws-region'' True of Inl err \<Rightarrow> Some (Inl err, []) | Inr r \<Rightarrow>
      case getInput w ''audience'' False of Inl err \<Rightarrow> Some (Inl err, []) | Inr audience \<Rightarrow>
      case getInput w ''account-name'' True of Inl err \<Rightarrow> Some (Inl err, []) | Inr accountName \<Rightarrow>
      case getInput w ''role-duration-seconds'' False of Inl err \<Rightarrow> Some (Inl err, []) | Inr durationInput \<Rightarrow>
      case getInput w ''role-session-name'' False of Inl err \<Rightarrow> Some (Inl err, []) | Inr nameInput \<Rightarrow>
      case getInput w ''web-identity-token-file'' False of Inl err \<Rightarrow> Some (Inl err, []) | Inr tokenFile \<Rightarrow>
      case getRoleToAssume w of Inl err \<Rightarrow> Some (Inl err, []) | Inr role \<Rightarrow>
      case getIDToken w audience of Inl err \<Rightarrow> Some (Inl err, [GetIDToken audience]) | Inr token \<Rightarrow>
      if \<not> matchesRegionRegex r
      then Some (Inl (Error (js ''Region is not valid: '' @ r)), [GetIDToken audience])
      else if \<not> isDefined (Some role)
      then Some (Inr (), GetIDToken audience # exportRegion r)
      else assumeAndExchange w r accountName
             \<lparr> sourceAccountId = None,
               roleToAssume = Some role,
               roleExternalId = None,
               roleDurationSeconds =
                 Some (if durationInput \<noteq> [] then SecondsText durationInput
                       else Seconds DEFAULT_ROLE_DURATION_FOR_OIDC_ROLES),
               roleSessionName = Some (if nameInput \<noteq> [] then nameInput else ROLE_SESSION_NAME),
               region = Some r,
               webIdentityTokenFile = Some tokenFile,
               webIdentityToken = Some token \<rparr>
             (GetIDToken audience # exportRegion r))"

text \<open>\<open>run\<close>: the effects of the whole call, the \<open>catch\<close> clause included.\<close>

definition run :: "world \<Rightarrow> event list option" where
  "run w =
     (case runBody w of
        None \<Rightarrow> None
      | Some (Inl err, effects) \<Rightarrow> Some (effects @ [SetFailed (message err)])
      | Some (Inr u, effects) \<Rightarrow> Some effects)"

section \<open>What the claims speak of\<close>

text \<open>The three credential entries of the environment.\<close>

fun isCredentialExport :: "event \<Rightarrow> bool" where
  "isCredentialExport (ExportVariable name v) =
     (name = ''AWS_ACCESS_KEY_ID'' \<or> name = ''AWS_SECRET_ACCESS_KEY'' \<or> name = ''AWS_SESSION_TOKEN'')"
| "isCredentialExport e = False"

text \<open>Requests that leave the process for the STS service, the signer or the broker, and
  the broker exchange alone.\<close>

fun isServiceCall :: "event \<Rightarrow> bool" where
  "isServiceCall (StsSend r c q) = True"
| "isServiceCall (Presign q) = True"
| "isServiceCall (AxiosPost e u a) = True"
| "isServiceCall e = False"

fun isStsSend :: "event \<Rightarrow> bool" where
  "isStsSend (StsSend r c q) = True"
| "isStsSend e = False"

fun isAxiosPost :: "event \<Rightarrow> bool" where
  "isAxiosPost (AxiosPost e u a) = True"
| "isAxiosPost e = False"

fun isExportVariable :: "event \<Rightarrow> bool" where
  "isExportVariable (ExportVariable name v) = True"
| "isExportVariable e = False"

text \<open>The effects a run can have up to the end of role assumption: diagnostics, the
  identity-token request, the two region entries, requests to the STS service and
  sleeps.\<close>

fun beforeSigning :: "event \<Rightarrow> bool" where
  "beforeSigning (Debug m) = True"
| "beforeSigning (Sleep d) = True"
| "beforeSigning (GetIDToken a) = True"
| "beforeSigning (StsSend r c q) = True"
| "beforeSigning (ExportVariable name v) = (name = ''AWS_DEFAULT_REGION'' \<or> name = ''AWS_REGION'')"
| "beforeSigning e = False"

section \<open>A concrete world\<close>

text \<open>The scenario of the specification: region \<open>us-east-1\<close>, repository \<open>org/repo\<close>,
  workflow \<open>CI Build [main]\<close>, actor \<open>dependabot[bot]\<close>; a POSIX \<open>path\<close> module without
  normalisation, no files, services that answer at once.\<close>

definition exampleEnv :: "string \<Rightarrow> jsstring option" where
  "exampleEnv =
     map_of [ (''GITHUB_REPOSITORY'', js ''org/repo''),
              (''GITHUB_WORKFLOW'', js ''CI Build [main]''),
              (''GITHUB_ACTION'', js ''run1''),
              (''GITHUB_ACTOR'', js ''dependabot[bot]''),
              (''GITHUB_SHA'', js ''abc123''),
              (''GITHUB_WORKSPACE'', js ''/ws'') ]"

definition exampleInputs :: "string \<Rightarrow> bool \<Rightarrow> error + jsstring" where
  "exampleInputs name required =
     (case map_of [(''aws-region'', js ''us-east-1''), (''account-name'', js ''prod'')] name of
        Some v \<Rightarrow> Inr v
      | None \<Rightarrow> if required then Inl (Error (js ''Input required and not supplied: '' @ js name))
                else Inr (js []))"

definition exampleRequest :: "jsstring \<Rightarrow> http_request" where
  "exampleRequest r =
     \<lparr> requestMethod = js ''POST'',
       protocol = js ''https:'',
       hostname = js ''sts.'' @ r @ js ''.amazonaws.com'',
       path = js ''/'',
       headers = [ (''content-type'', Some (js ''application/x-www-form-urlencoded'')),
                   (''host'', Some (js ''sts.'' @ r @ js ''.amazonaws.com'')) ],
       query = [],
       body = js ''Action=GetCallerIdentity&Version=2011-06-15'' \<rparr>"

fun exampleQueryString :: "(string \<times> jsstring) list \<Rightarrow> jsstring" where
  "exampleQueryString [] = []"
| "exampleQueryString [(k, v)] = js k @ js ''='' @ v"
| "exampleQueryString ((k, v) # rest) = js k @ js ''='' @ v @ js ''&'' @ exampleQueryString rest"

definition exampleWorld :: world where
  "exampleWorld =
     \<lparr> unicodeTables = sampleRows,
       env = exampleEnv,
       getInput = exampleInputs,
       getIDToken = (\<lambda>audience. Inr (js ''token'')),
       isAbsolute = (\<lambda>p. take 1 p = js ''/''),
       pathJoin = (\<lambda>a b. a @ js ''/'' @ b),
       files = (\<lambda>p. Absent),
       stsSend = (\<lambda>k r c q. Inr \<lparr>Credentials = Some
                   \<lparr> AccessKeyId = Some (js ''ASIA''),
                     SecretAccessKey = Some (js ''secret''),
                     SessionToken = Some (js ''session'') \<rparr>\<rparr>),
       createRequest = (\<lambda>r c. Inr (exampleRequest r)),
       presign = (\<lambda>q. Inr (q\<lparr>query := query q @ [(''X-Amz-Signature'', js ''5d6f'')]\<rparr>)),
       formatUrl = (\<lambda>q. protocol q @ js ''//'' @ hostname q @ path q
                          @ js ''?'' @ exampleQueryString (query q)),
       axiosPost = (\<lambda>e u a. Inr (Data (Some (js ''AKIA'')) (Some (js ''key''))
                                       (Some (js ''final'')))),
       mathRandom = (\<lambda>k. 1 / 2) \<rparr>"

definition exampleParams :: params where
  "exampleParams =
     \<lparr> sourceAccountId = Some (js ''123456789012''),
       roleToAssume = Some (js ''deploy''),
       roleExternalId = None,
       roleDurationSeconds = Some (Seconds 3600),
       roleSessionName = Some (js ''GitHubActions''),
       region = Some (js ''us-east-1''),
       webIdentityTokenFile = None,
       webIdentityToken = None \<rparr>"

text \<open>The token file of the workspace exists and holds a token. The role given as a
  full ARN, with no source account.\<close>

definition tokenFileWorld :: world where
  "tokenFileWorld =
     exampleWorld\<lparr>files :=
       (\<lambda>p. if p = js ''/ws/token.jwt'' then Contents (js ''file-token'') else Absent)\<rparr>"

definition arnParams :: params where
  "arnParams =
     exampleParams\<lparr>sourceAccountId := None,
                     roleToAssume := Some (js ''arn:aws:iam::123456789012:role/deploy'')\<rparr>"

text \<open>The broker answers with an object that has no \<open>accessKeyId\<close>.\<close>

definition incompleteBrokerWorld :: world where
  "incompleteBrokerWorld =
     exampleWorld\<lparr>axiosPost := (\<lambda>e u a. Inr (Data None (Some (js ''key'')) None))\<rparr>"

text \<open>The broker refuses the exchange.\<close>

definition brokerFailureWorld :: world where
  "brokerFailureWorld =
     exampleWorld\<lparr>axiosPost :=
       (\<lambda>e u a. Inl (ServiceError (js ''Request failed with status code 403'')))\<rparr>"

text \<open>The region input is \<open>US-EAST-1\<close>; in the second world the platform also fails to
  issue the identity token.\<close>

definition invalidRegionWorld :: world where
  "invalidRegionWorld =
     exampleWorld\<lparr>getInput :=
       (\<lambda>name required. if name = ''aws-region'' then Inr (js ''US-EAST-1'')
                         else exampleInputs name required)\<rparr>"

definition tokenFailureWorld :: world where
  "tokenFailureWorld =
     invalidRegionWorld\<lparr>getIDToken :=
       (\<lambda>audience. Inl (ServiceError (js
          ''Unable to get ACTIONS_ID_TOKEN_REQUEST_URL env variable'')))\<rparr>"

section \<open>Properties of the retry/backoff executor\<close>

lemma failedEffects_0: "failedEffects sleep random fn retries base c 0 = []"
  by (simp add: failedEffects_def)

lemma failedEffects_Suc_front:
  "failedEffects sleep random fn retries base c (Suc n) =
     attemptEffects sleep random fn retries base c 0
       @ failedEffects sleep random fn (Suc retries) base (Suc c) n"
proof -
  have u: "[0..<Suc n] = 0 # map Suc [0..<n]"
    by (simp add: upt_conv_Cons map_Suc_upt del: upt_Suc)
  have s: "attemptEffects sleep random fn retries base c (Suc i)
             = attemptEffects sleep random fn (Suc retries) base (Suc c) i" for i
    by (simp add: attemptEffects_def)
  show ?thesis
    unfolding failedEffects_def u by (simp add: comp_def s)
qed

lemma retry_success_now:
  "fst (fn (calls st)) = Inr v \<Longrightarrow>
   retryAndBackoff sleep random fn isRetryable retries maxRetries base st =
     Some (Inr v, st\<lparr>calls := Suc (calls st), trace := trace st @ snd (fn (calls st))\<rparr>)"
  by (subst retryAndBackoff.simps) (simp add: split_beta Let_def)

lemma retry_not_retryable:
  "retryAndBackoff sleep random fn False retries maxRetries base st =
     Some (fst (fn (calls st)),
           st\<lparr>calls := Suc (calls st), trace := trace st @ snd (fn (calls st))\<rparr>)"
  by (subst retryAndBackoff.simps) (simp add: split_beta Let_def split: sum.splits)

lemma retry_fail_step:
  "fst (fn (calls st)) = Inl err \<Longrightarrow> Suc retries \<noteq> maxRetries \<Longrightarrow>
   retryAndBackoff sleep random fn True retries maxRetries base st =
     retryAndBackoff sleep random fn True (Suc retries) maxRetries base
       (st\<lparr>calls := Suc (calls st),
           trace := trace st @ attemptEffects sleep random fn retries base (calls st) 0\<rparr>)"
  by (subst retryAndBackoff.simps) (simp add: split_beta Let_def attemptEffects_def)

lemma retry_fail_last:
  "fst (fn (calls st)) = Inl err \<Longrightarrow> Suc retries = maxRetries \<Longrightarrow>
   retryAndBackoff sleep random fn True retries maxRetries base st =
     Some (Inl err, st\<lparr>calls := Suc (calls st),
           trace := trace st @ attemptEffects sleep random fn retries base (calls st) 0\<rparr>)"
  by (subst retryAndBackoff.simps) (simp add: split_beta Let_def attemptEffects_def)

lemma retry_fail_steps:
  "(\<forall>i<n. isl (fst (fn (calls st + i)))) \<Longrightarrow> (\<forall>i<n. Suc (retries + i) \<noteq> maxRetries) \<Longrightarrow>
   retryAndBackoff sleep random fn True retries maxRetries base st =
     retryAndBackoff sleep random fn True (retries + n) maxRetries base
       (st\<lparr>calls := calls st + n,
           trace := trace st @ failedEffects sleep random fn retries base (calls st) n\<rparr>)"
proof (induction n arbitrary: retries st)
  case 0
  then show ?case by (simp add: failedEffects_0)
next
  case (Suc n)
  let ?st1 = "st\<lparr>calls := Suc (calls st),
           trace := trace st @ attemptEffects sleep random fn retries base (calls st) 0\<rparr>"
  from Suc.prems(1) have "isl (fst (fn (calls st)))" by force
  then obtain err where err: "fst (fn (calls st)) = Inl err" by (auto simp: isl_def)
  from Suc.prems(2) have ne: "Suc retries \<noteq> maxRetries" by force
  have a: "\<forall>i<n. isl (fst (fn (calls ?st1 + i)))" using Suc.prems(1) by auto
  have b: "\<forall>i<n. Suc (Suc retries + i) \<noteq> maxRetries" using Suc.prems(2) by auto
  have step: "retryAndBackoff sleep random fn True retries maxRetries base st =
     retryAndBackoff sleep random fn True (Suc retries) maxRetries base ?st1"
    using err ne by (rule retry_fail_step)
  show ?case
    unfolding step Suc.IH [OF a b] by (simp add: failedEffects_Suc_front)
qed

lemma retry_diverges:
  assumes run: "retryAndBackoff sleep random fn isRetryable retries maxRetries base st = Some y"
  shows "\<not> (isRetryable \<and> maxRetries \<le> retries \<and> (\<forall>k\<ge>calls st. isl (fst (fn k))))"
proof (rule retryAndBackoff.raw_induct
    [where P = "\<lambda>sleep random fn isRetryable retries maxRetries base st y.
        \<not> (isRetryable \<and> maxRetries \<le> retries \<and> (\<forall>k\<ge>calls st. isl (fst (fn k))))",
     OF _ run], goal_cases)
  case (1 rec sleep random fn isRetryable retries maxRetries base st y)
  show ?case
  proof
    assume h: "isRetryable \<and> maxRetries \<le> retries \<and> (\<forall>k\<ge>calls st. isl (fst (fn k)))"
    then obtain err where err: "fst (fn (calls st)) = Inl err" by (auto simp: isl_def)
    from h have ne: "retries + 1 \<noteq> maxRetries" by simp
    from 1(2) err h ne obtain st2 where
      r: "rec sleep random fn isRetryable (retries + 1) maxRetries base st2 = Some y"
      and c: "calls st2 = Suc (calls st)"
      by (auto simp: split_beta Let_def)
    from 1(1) [OF r] h c show False by auto
  qed
qed


lemma failedEffects_Suc_back:
  "failedEffects sleep random fn retries base c (Suc n) =
     failedEffects sleep random fn retries base c n
       @ attemptEffects sleep random fn retries base c n"
  by (simp add: failedEffects_def)

lemma attemptEffects_shift:
  "attemptEffects sleep random fn (retries + n) base (c + n) 0 =
     attemptEffects sleep random fn retries base c n"
  by (simp add: attemptEffects_def)

lemma retry_exhausts:
  assumes fails: "\<forall>k. isl (fst (fn k))" and lt: "retries < maxRetries"
  shows "retryAndBackoff sleep random fn True retries maxRetries base st =
     Some (fst (fn (calls st + (maxRetries - retries) - 1)),
           st\<lparr>calls := calls st + (maxRetries - retries),
               trace := trace st
                 @ failedEffects sleep random fn retries base (calls st) (maxRetries - retries)\<rparr>)"
proof -
  define n where "n = maxRetries - retries - 1"
  have m: "maxRetries - retries = Suc n" and last: "Suc (retries + n) = maxRetries"
    using lt by (simp_all add: n_def)
  let ?st = "st\<lparr>calls := calls st + n,
           trace := trace st @ failedEffects sleep random fn retries base (calls st) n\<rparr>"
  have a: "\<forall>i<n. isl (fst (fn (calls st + i)))" using fails by simp
  have b: "\<forall>i<n. Suc (retries + i) \<noteq> maxRetries" using last by simp
  from fails obtain err where err: "fst (fn (calls ?st)) = Inl err"
    by (meson isl_def)
  have "retryAndBackoff sleep random fn True (retries + n) maxRetries base ?st =
     Some (Inl err, ?st\<lparr>calls := Suc (calls ?st),
           trace := trace ?st @ attemptEffects sleep random fn (retries + n) base (calls ?st) 0\<rparr>)"
    using err last by (rule retry_fail_last)
  then show ?thesis
    unfolding retry_fail_steps [OF a b] m using err
    by (simp add: failedEffects_Suc_back attemptEffects_shift)
qed

lemma retry_forever:
  assumes fails: "\<forall>k. isl (fst (fn k))" and le: "maxRetries \<le> retries"
  shows "retryAndBackoff sleep random fn True retries maxRetries base st = None"
proof (cases "retryAndBackoff sleep random fn True retries maxRetries base st")
  case None
  then show ?thesis .
next
  case (Some y)
  from retry_diverges [OF Some] fails le show ?thesis by simp
qed


lemma retry_trace_invariant:
  assumes run: "retryAndBackoff sleep random fn isRetryable retries maxRetries base st = Some y"
    and fnQ: "\<forall>k. \<forall>e\<in>set (snd (fn k)). Q e"
    and sleepQ: "\<forall>d. Q (sleep d)"
    and stQ: "\<forall>e\<in>set (trace st). Q e"
  shows "\<forall>e\<in>set (trace (snd y)). Q e"
proof -
  have "(\<forall>k. \<forall>e\<in>set (snd (fn k)). Q e) \<longrightarrow> (\<forall>d. Q (sleep d)) \<longrightarrow> (\<forall>e\<in>set (trace st). Q e)
          \<longrightarrow> (\<forall>e\<in>set (trace (snd y)). Q e)"
  proof (rule retryAndBackoff.raw_induct
      [where P = "\<lambda>sleep random fn isRetryable retries maxRetries base st y.
        (\<forall>k. \<forall>e\<in>set (snd (fn k)). Q e) \<longrightarrow> (\<forall>d. Q (sleep d)) \<longrightarrow> (\<forall>e\<in>set (trace st). Q e)
          \<longrightarrow> (\<forall>e\<in>set (trace (snd y)). Q e)",
       OF _ run], goal_cases)
    case (1 rec sleep random fn isRetryable retries maxRetries base st y)
    show ?case
    proof (intro impI)
      assume f: "\<forall>k. \<forall>e\<in>set (snd (fn k)). Q e" and s: "\<forall>d. Q (sleep d)"
        and t: "\<forall>e\<in>set (trace st). Q e"
      let ?st1 = "st\<lparr>calls := Suc (calls st), trace := trace st @ snd (fn (calls st))\<rparr>"
      let ?st2 = "?st1\<lparr>trace := trace ?st1 @
                    [sleep (random (calls st) * (2 ^ retries * real base))]\<rparr>"
      have q1: "\<forall>e\<in>set (trace ?st1). Q e" using f t by auto
      have q2: "\<forall>e\<in>set (trace ?st2). Q e" using q1 s by auto
      have "y = (fst (fn (calls st)), ?st1) \<or> (\<exists>err. y = (Inl err, ?st2))
          \<or> rec sleep random fn isRetryable (retries + 1) maxRetries base ?st2 = Some y"
      proof (cases "fst (fn (calls st))")
        case (Inr v)
        with 1(2) show ?thesis by (simp add: split_beta Let_def)
      next
        case (Inl err)
        show ?thesis
        proof (cases isRetryable)
          case False
          with 1(2) Inl show ?thesis by (simp add: split_beta Let_def)
        next
          case True
          show ?thesis
          proof (cases "retries + 1 = maxRetries")
            case True
            with 1(2) Inl \<open>isRetryable\<close> show ?thesis by (auto simp: split_beta Let_def)
          next
            case False
            with 1(2) Inl \<open>isRetryable\<close> show ?thesis by (simp add: split_beta Let_def)
          qed
        qed
      qed
      then consider "y = (fst (fn (calls st)), ?st1)" | "\<exists>err. y = (Inl err, ?st2)"
        | "rec sleep random fn isRetryable (retries + 1) maxRetries base ?st2 = Some y"
        by blast
      then show "\<forall>e\<in>set (trace (snd y)). Q e"
      proof cases
        case 1
        then show ?thesis using q1 by simp
      next
        case 2
        then show ?thesis using q2 by auto
      next
        case 3
        from 1(1) [OF 3] f s q2 show ?thesis by blast
      qed
    qed
  qed
  with fnQ sleepQ stQ show ?thesis by blast
qed

lemma upt_12: "[0..<12] = [0,1,2,3,4,5,6,7,8,9,10,11::nat]"
  by code_simp

lemma upt_2: "[0..<2] = [0,1::nat]"
  by code_simp

text \<open>
  Claim C2. An operation that fails on its first \<open>N\<close> invocations and succeeds on
  invocation \<open>N + 1\<close>, run with \<open>isRetryable = true\<close>, the default \<open>retries = 0\<close> and
  \<open>maxRetries > N\<close>, makes the executor return the success value, after \<open>N + 1\<close>
  invocations and \<open>N\<close> sleeps. With \<open>isRetryable = false\<close> the executor returns what the
  first invocation returns, its error if it fails, after that one invocation, and the
  trace holds the effects of that invocation only: \<open>sleep\<close> is never called.
\<close>

theorem retryAndBackoff_success_after_failures:
  "((\<forall>k<N. isl (fst ((fn :: nat \<Rightarrow> ('e + 'a) \<times> 'ev list) k))) \<and> fst (fn N) = Inr v \<and> N < maxRetries \<longrightarrow>
      retryAndBackoff sleep random fn True 0 maxRetries base \<lparr>calls = 0, trace = []\<rparr>
        = Some (Inr v, \<lparr>calls = Suc N,
                        trace = failedEffects sleep random fn 0 base 0 N @ snd (fn N)\<rparr>))
   \<and> retryAndBackoff sleep random fn False retries maxRetries base \<lparr>calls = 0, trace = []\<rparr>
        = Some (fst (fn 0), \<lparr>calls = 1, trace = snd (fn 0)\<rparr>)"
proof (intro conjI impI)
  assume h: "(\<forall>k<N. isl (fst (fn k))) \<and> fst (fn N) = Inr v \<and> N < maxRetries"
  let ?st0 = "\<lparr>calls = 0, trace = []\<rparr> :: 'ev exec_state"
  have a: "\<forall>i<N. isl (fst (fn (calls ?st0 + i)))" using h by simp
  have b: "\<forall>i<N. Suc (0 + i) \<noteq> maxRetries" using h by auto
  let ?stN = "?st0\<lparr>calls := calls ?st0 + N,
      trace := trace ?st0 @ failedEffects sleep random fn 0 base (calls ?st0) N\<rparr>"
  have ok: "fst (fn (calls ?stN)) = Inr v" using h by simp
  show "retryAndBackoff sleep random fn True 0 maxRetries base ?st0
        = Some (Inr v, \<lparr>calls = Suc N,
                        trace = failedEffects sleep random fn 0 base 0 N @ snd (fn N)\<rparr>)"
    unfolding retry_fail_steps [OF a b] retry_success_now [of fn ?stN v, OF ok] by simp
next
  show "retryAndBackoff sleep random fn False retries maxRetries base \<lparr>calls = 0, trace = []\<rparr>
        = Some (fst (fn 0), \<lparr>calls = 1, trace = snd (fn 0)\<rparr>)"
    by (simp add: retry_not_retryable)
qed

theorem retryAndBackoff_success_after_failures_witness:
  "retryAndBackoff (\<lambda>d. d) (\<lambda>k. 1 / 2)
      (\<lambda>k. if k < 2 then (Inl ''throttled'', []) else (Inr (7::nat), [])) True 0 12 50
      \<lparr>calls = 0, trace = []\<rparr>
     = Some (Inr 7, \<lparr>calls = 3, trace = [25, 50]\<rparr>)
   \<and> retryAndBackoff (\<lambda>d. d) (\<lambda>k. 1 / 2)
      (\<lambda>k. if k < 2 then (Inl ''throttled'', []) else (Inr (7::nat), [])) False 0 12 50
      \<lparr>calls = 0, trace = []\<rparr>
     = Some (Inl ''throttled'', \<lparr>calls = 1, trace = []\<rparr>)"
  using retryAndBackoff_success_after_failures
    [of 2 "\<lambda>k. if k < 2 then (Inl ''throttled'', []) else (Inr (7::nat), [])" 7 12
        "\<lambda>d. d" "\<lambda>k. 1 / 2" 50 0]
  by (simp add: failedEffects_def attemptEffects_def upt_2)

text \<open>
  Claim C10. For a retryable operation that fails at every invocation: when
  \<open>retries < maxRetries\<close> the executor returns, after \<open>maxRetries - retries\<close> invocations,
  each followed by a sleep (the last one too), and surfaces the error of the last
  invocation; when \<open>maxRetries \<le> retries\<close> the test \<open>retries === maxRetries\<close> never
  holds and the executor never returns. With the defaults that is 12 invocations and 12
  sleeps; with \<open>maxRetries = 0\<close> the executor retries forever.
\<close>

theorem retryAndBackoff_exhaustion:
  assumes "\<forall>k. isl (fst (fn k))"
  shows "(retries < maxRetries \<longrightarrow>
           retryAndBackoff sleep random fn True retries maxRetries base st =
             Some (fst (fn (calls st + (maxRetries - retries) - 1)),
                   st\<lparr>calls := calls st + (maxRetries - retries),
                       trace := trace st @ failedEffects sleep random fn retries base (calls st)
                                            (maxRetries - retries)\<rparr>))
       \<and> (maxRetries \<le> retries \<longrightarrow>
           retryAndBackoff sleep random fn True retries maxRetries base st = None)
       \<and> retryAndBackoff sleep random fn True 0 12 50 \<lparr>calls = 0, trace = []\<rparr> =
             Some (fst (fn 11), \<lparr>calls = 12, trace = failedEffects sleep random fn 0 50 0 12\<rparr>)
       \<and> retryAndBackoff sleep random fn True 0 0 50 \<lparr>calls = 0, trace = []\<rparr> = None"
proof (intro conjI impI)
  assume "retries < maxRetries"
  with assms show "retryAndBackoff sleep random fn True retries maxRetries base st =
             Some (fst (fn (calls st + (maxRetries - retries) - 1)),
                   st\<lparr>calls := calls st + (maxRetries - retries),
                       trace := trace st @ failedEffects sleep random fn retries base (calls st)
                                            (maxRetries - retries)\<rparr>)"
    by (rule retry_exhausts)
next
  assume "maxRetries \<le> retries"
  with assms show "retryAndBackoff sleep random fn True retries maxRetries base st = None"
    by (rule retry_forever)
next
  have "(0::nat) < 12" by simp
  from retry_exhausts [OF assms this, of sleep random 50 "\<lparr>calls = 0, trace = []\<rparr>"]
  show "retryAndBackoff sleep random fn True 0 12 50 \<lparr>calls = 0, trace = []\<rparr> =
             Some (fst (fn 11), \<lparr>calls = 12, trace = failedEffects sleep random fn 0 50 0 12\<rparr>)"
    by simp
next
  from assms show "retryAndBackoff sleep random fn True 0 0 50 \<lparr>calls = 0, trace = []\<rparr> = None"
    by (intro retry_forever) simp_all
qed

theorem retryAndBackoff_exhaustion_witness:
  "retryAndBackoff (\<lambda>d. d) (\<lambda>k. 1) (\<lambda>k. (Inl k, []) :: (nat + unit) \<times> real list) True 0 12 50
      \<lparr>calls = 0, trace = []\<rparr>
     = Some (Inl 11, \<lparr>calls = 12,
          trace = [50, 100, 200, 400, 800, 1600, 3200, 6400, 12800, 25600, 51200, 102400]\<rparr>)
   \<and> retryAndBackoff (\<lambda>d. d) (\<lambda>k. 1) (\<lambda>k. (Inl k, []) :: (nat + unit) \<times> real list) True 0 0 50
      \<lparr>calls = 0, trace = []\<rparr> = None
   \<and> retryAndBackoff (\<lambda>d. d) (\<lambda>k. 1) (\<lambda>k. (Inl k, []) :: (nat + unit) \<times> real list) True 5 3 50
      \<lparr>calls = 0, trace = []\<rparr> = None"
  using retryAndBackoff_exhaustion
    [of "\<lambda>k. (Inl k, []) :: (nat + unit) \<times> real list" 5 3 "\<lambda>d. d" "\<lambda>k. 1" 50
        "\<lparr>calls = 0, trace = []\<rparr>"]
  by (simp add: failedEffects_def attemptEffects_def upt_12)


section \<open>Properties of the tag sanitizer\<close>

lemma sentinel_not_lead: "\<not> isLead SANITIZATION_CHARACTER"
  by (simp add: isLead_def SANITIZATION_CHARACTER_def)

lemma sentinel_not_trail: "\<not> isTrail SANITIZATION_CHARACTER"
  by (simp add: isTrail_def SANITIZATION_CHARACTER_def)

lemma sentinel_tagChar: "tagChar U SANITIZATION_CHARACTER"
  by (simp add: tagChar_def SANITIZATION_CHARACTER_def)

lemma replace_Cons_not_lead:
  "\<not> isLead u \<Longrightarrow>
   replaceSpecialCharacters U (u # xs) =
     (if tagChar U u then u else SANITIZATION_CHARACTER) # replaceSpecialCharacters U xs"
  by (cases xs) simp_all

lemma codePoints_Cons_not_lead: "\<not> isLead u \<Longrightarrow> codePoints (u # xs) = u # codePoints xs"
  by (cases xs) simp_all

lemma codePoints_Cons_not_trail:
  "xs \<noteq> [] \<Longrightarrow> \<not> isTrail (hd xs) \<Longrightarrow> codePoints (u # xs) = u # codePoints xs"
  by (cases xs) simp_all

lemma replace_length: "length (replaceSpecialCharacters U s) \<le> length s"
  by (induction U s rule: replaceSpecialCharacters.induct) auto

lemma replace_hd:
  "replaceSpecialCharacters U (v # rest) \<noteq> []
   \<and> (hd (replaceSpecialCharacters U (v # rest)) = v
      \<or> hd (replaceSpecialCharacters U (v # rest)) = SANITIZATION_CHARACTER)"
  by (cases rest) auto

lemma replace_codePoints:
  "codePoints (replaceSpecialCharacters U s) =
     map (\<lambda>c. if tagChar U c then c else SANITIZATION_CHARACTER) (codePoints s)"
proof (induction U s rule: replaceSpecialCharacters.induct)
  case (1 U)
  show ?case by simp
next
  case (2 U u)
  show ?case by simp
next
  case (3 U u v rest)
  show ?case
  proof (cases "isLead u \<and> isTrail v")
    case True
    then show ?thesis
      using 3 by (simp add: codePoints_Cons_not_lead sentinel_not_lead)
  next
    case False
    let ?u = "if tagChar U u then u else SANITIZATION_CHARACTER"
    let ?r = "replaceSpecialCharacters U (v # rest)"
    have "codePoints (?u # ?r) = ?u # codePoints ?r"
    proof (cases "isLead ?u")
      case no: False
      then show ?thesis by (rule codePoints_Cons_not_lead)
    next
      case yes: True
      then have "isLead u" by (auto simp: sentinel_not_lead split: if_splits)
      with False have "\<not> isTrail v" by simp
      with replace_hd [of U v rest] have "?r \<noteq> []" and "\<not> isTrail (hd ?r)"
        by (auto simp: sentinel_not_trail)
      then show ?thesis by (rule codePoints_Cons_not_trail)
    qed
    moreover have "replaceSpecialCharacters U (u # v # rest) = ?u # ?r"
      using False by auto
    moreover have "codePoints (u # v # rest) = u # codePoints (v # rest)"
      using False by auto
    moreover have "codePoints ?r =
        map (\<lambda>c. if tagChar U c then c else SANITIZATION_CHARACTER) (codePoints (v # rest))"
      using False by (rule "3.IH"(3))
    ultimately show ?thesis by simp
  qed
qed

lemma replace_no_lead:
  "\<forall>u\<in>set s. \<not> isLead u \<Longrightarrow>
   replaceSpecialCharacters U s = map (\<lambda>u. if tagChar U u then u else SANITIZATION_CHARACTER) s"
  by (induction s) (simp_all add: replace_Cons_not_lead)

lemma sanitize_take:
  "sanitizeGithubWorkflowName U s = take 256 (replaceSpecialCharacters U s)"
  by (simp add: sanitizeGithubWorkflowName_def MAX_TAG_VALUE_LENGTH_def)

lemma codePoints_append:
  "\<not> (xs \<noteq> [] \<and> ys \<noteq> [] \<and> isLead (last xs) \<and> isTrail (hd ys)) \<Longrightarrow>
   codePoints (xs @ ys) = codePoints xs @ codePoints ys"
proof (induction xs rule: codePoints.induct)
  case 1
  show ?case by simp
next
  case (2 u)
  then show ?case by (cases ys) auto
next
  case (3 u v rest)
  show ?case
  proof (cases "isLead u \<and> isTrail v")
    case True
    have "codePoints (rest @ ys) = codePoints rest @ codePoints ys"
    proof (rule "3.IH"(1) [OF True])
      from "3.prems" show "\<not> (rest \<noteq> [] \<and> ys \<noteq> [] \<and> isLead (last rest) \<and> isTrail (hd ys))"
        by auto
    qed
    with True show ?thesis by simp
  next
    case False
    have "codePoints ((v # rest) @ ys) = codePoints (v # rest) @ codePoints ys"
    proof (rule "3.IH"(2) [OF False])
      from "3.prems"
      show "\<not> (v # rest \<noteq> [] \<and> ys \<noteq> [] \<and> isLead (last (v # rest)) \<and> isTrail (hd ys))"
        by auto
    qed
    moreover have "codePoints (u # v # rest @ ys) = u # codePoints (v # rest @ ys)"
      using False by auto
    moreover have "codePoints (u # v # rest) = u # codePoints (v # rest)"
      using False by auto
    ultimately show ?thesis by simp
  qed
qed

lemma codePoints_take:
  assumes "\<not> cutsPair n t"
  shows "codePoints t = codePoints (take n t) @ codePoints (drop n t)"
proof -
  have "\<not> (take n t \<noteq> [] \<and> drop n t \<noteq> [] \<and> isLead (last (take n t)) \<and> isTrail (hd (drop n t)))"
  proof
    assume h: "take n t \<noteq> [] \<and> drop n t \<noteq> [] \<and> isLead (last (take n t)) \<and> isTrail (hd (drop n t))"
    from h have n: "0 < n" "n < length t" by auto
    from h have "take n t \<noteq> []"
      by blast
    then have "last (take n t) = take n t ! (length (take n t) - 1)"
      by (rule last_conv_nth)
    with n have "last (take n t) = t ! (n - 1)"
      by (simp add: min_def)
    moreover from n have "hd (drop n t) = t ! n"
      by (simp add: hd_drop_conv_nth)
    ultimately show False
      using h n assms by (simp add: cutsPair_def)
  qed
  from codePoints_append [OF this] show ?thesis by simp
qed

lemma short_not_cut: "length s \<le> 256 \<Longrightarrow> \<not> cutsPair 256 (replaceSpecialCharacters U s)"
  using replace_length [of U s] by (simp add: cutsPair_def)

text \<open>
  Claim C7, as amended. The result has at most 256 code units. Whenever the cut at 256
  does not fall inside a surrogate pair, and so for every input of at most 256 code
  units, the result contains only characters of the allowed class, and its characters
  are the first characters of the input with each disallowed one replaced by \<open>_\<close>:
  none is dropped. When nothing is cut, the result has as many characters as the input,
  character for character; its length in code units is then the input's less one for
  each replaced character above \<open>U+FFFF\<close>, which gives up two code units for one.
\<close>

theorem sanitizeGithubWorkflowName_code_points:
  "length (sanitizeGithubWorkflowName U s) \<le> 256
   \<and> (\<not> cutsPair 256 (replaceSpecialCharacters U s) \<longrightarrow>
        list_all (tagChar U) (codePoints (sanitizeGithubWorkflowName U s))
        \<and> (\<exists>dropped. map (\<lambda>c. if tagChar U c then c else SANITIZATION_CHARACTER) (codePoints s)
                      = codePoints (sanitizeGithubWorkflowName U s) @ dropped))
   \<and> (length s \<le> 256 \<longrightarrow>
        \<not> cutsPair 256 (replaceSpecialCharacters U s)
        \<and> codePoints (sanitizeGithubWorkflowName U s)
            = map (\<lambda>c. if tagChar U c then c else SANITIZATION_CHARACTER) (codePoints s)
        \<and> length (codePoints (sanitizeGithubWorkflowName U s)) = length (codePoints s))"
proof (intro conjI impI)
  show "length (sanitizeGithubWorkflowName U s) \<le> 256"
    by (simp add: sanitize_take)
next
  assume whole: "\<not> cutsPair 256 (replaceSpecialCharacters U s)"
  let ?f = "\<lambda>c. if tagChar U c then c else SANITIZATION_CHARACTER"
  from codePoints_take [OF whole]
  have split: "map ?f (codePoints s) = codePoints (sanitizeGithubWorkflowName U s)
      @ codePoints (drop 256 (replaceSpecialCharacters U s))"
    by (simp add: replace_codePoints sanitize_take)
  then show "\<exists>dropped. map ?f (codePoints s)
      = codePoints (sanitizeGithubWorkflowName U s) @ dropped"
    by blast
  have "list_all (tagChar U) (map ?f (codePoints s))"
    by (auto simp: list_all_iff sentinel_tagChar)
  then show "list_all (tagChar U) (codePoints (sanitizeGithubWorkflowName U s))"
    unfolding split by simp
next
  assume short: "length s \<le> 256"
  then show "\<not> cutsPair 256 (replaceSpecialCharacters U s)"
    by (rule short_not_cut)
  from short replace_length [of U s]
  have "sanitizeGithubWorkflowName U s = replaceSpecialCharacters U s"
    by (simp add: sanitize_take)
  then show eq: "codePoints (sanitizeGithubWorkflowName U s)
            = map (\<lambda>c. if tagChar U c then c else SANITIZATION_CHARACTER) (codePoints s)"
    by (simp add: replace_codePoints)
  then show "length (codePoints (sanitizeGithubWorkflowName U s)) = length (codePoints s)"
    by simp
qed

theorem sanitizeGithubWorkflowName_code_points_witness:
  "\<not> cutsPair 256 (replaceSpecialCharacters sampleRows [0xD83D, 0xDE00])
   \<and> codePoints [0xD83D, 0xDE00] = [0x1F600]
   \<and> codePoints (sanitizeGithubWorkflowName sampleRows [0xD83D, 0xDE00]) = js ''_''
   \<and> list_all (tagChar sampleRows) (codePoints (sanitizeGithubWorkflowName sampleRows [0xD83D, 0xDE00]))
   \<and> sanitizeGithubWorkflowName sampleRows (js ''CI Build [main]'') = js ''CI Build _main_''
   \<and> list_all (tagChar sampleRows)
        (codePoints (sanitizeGithubWorkflowName sampleRows (js ''CI Build [main]'')))"
proof -
  have a: "length [0xD83D, 0xDE00 :: nat] \<le> 256" and b: "length (js ''CI Build [main]'') \<le> 256"
    by (simp_all add: js_def)
  have c: "codePoints [0xD83D, 0xDE00] = [0x1F600]"
    by (simp add: isLead_def isTrail_def codePoint_def)
  have d: "sanitizeGithubWorkflowName sampleRows (js ''CI Build [main]'') = js ''CI Build _main_''"
    by (simp add: sanitize_take js_def isLead_def tagChar_def sampleRows_def
        SANITIZATION_CHARACTER_def)
  note emoji = sanitizeGithubWorkflowName_code_points [of sampleRows "[0xD83D, 0xDE00]"]
  note name = sanitizeGithubWorkflowName_code_points [of sampleRows "js ''CI Build [main]''"]
  from emoji a have e1: "\<not> cutsPair 256 (replaceSpecialCharacters sampleRows [0xD83D, 0xDE00])"
    by blast
  from emoji a have e2: "codePoints (sanitizeGithubWorkflowName sampleRows [0xD83D, 0xDE00])
      = map (\<lambda>c. if tagChar sampleRows c then c else SANITIZATION_CHARACTER)
          (codePoints [0xD83D, 0xDE00])"
    by blast
  from emoji e1
  have e3: "list_all (tagChar sampleRows) (codePoints (sanitizeGithubWorkflowName sampleRows [0xD83D, 0xDE00]))"
    by blast
  from name b have "\<not> cutsPair 256 (replaceSpecialCharacters sampleRows (js ''CI Build [main]''))"
    by blast
  with name have n3: "list_all (tagChar sampleRows)
        (codePoints (sanitizeGithubWorkflowName sampleRows (js ''CI Build [main]'')))"
    by blast
  have "map (\<lambda>c. if tagChar sampleRows c then c else SANITIZATION_CHARACTER) [0x1F600] = js ''_''"
    by (simp add: tagChar_def sampleRows_def SANITIZATION_CHARACTER_def js_def)
  with e2 c have e4: "codePoints (sanitizeGithubWorkflowName sampleRows [0xD83D, 0xDE00]) = js ''_''"
    by simp
  from e1 c e4 e3 d n3 show ?thesis
    by blast
qed

text \<open>
  Claim C7, as stated, fails: the input \<open>U+1F600\<close> (one emoji, the two code units
  \<open>0xD83D 0xDE00\<close>) is shorter than 256, so nothing is truncated, and the result is the
  single code unit \<open>_\<close>: the length has changed from 2 to 1.
\<close>

theorem sanitizeGithubWorkflowName_length_counterexample:
  "length [0xD83D, 0xDE00 :: nat] \<le> MAX_TAG_VALUE_LENGTH
   \<and> sanitizeGithubWorkflowName sampleRows [0xD83D, 0xDE00] = js ''_''
   \<and> length (sanitizeGithubWorkflowName sampleRows [0xD83D, 0xDE00])
       \<noteq> length [0xD83D, 0xDE00 :: nat]"
  by (simp add: sanitizeGithubWorkflowName_def isLead_def isTrail_def tagChar_def codePoint_def
      sampleRows_def SANITIZATION_CHARACTER_def MAX_TAG_VALUE_LENGTH_def js_def)

text \<open>Truncation counts code units and may cut a surrogate pair: 255 letters \<open>a\<close> followed
  by the Deseret letter \<open>U+10400\<close> are all in the class, and the result ends in the
  unpaired lead surrogate \<open>0xD801\<close>, which is not.\<close>

lemma replace_replicate:
  "tagChar U a \<Longrightarrow> \<not> isLead a \<Longrightarrow>
   replaceSpecialCharacters U (replicate n a @ xs) = replicate n a @ replaceSpecialCharacters U xs"
  by (induction n) (simp_all add: replace_Cons_not_lead)

lemma sanitize_splits_pair:
  "sanitizeGithubWorkflowName sampleRows (replicate 255 97 @ [0xD801, 0xDC00])
     = replicate 255 97 @ [0xD801]
   \<and> codePoints [0xD801, 0xDC00] = [0x10400]
   \<and> tagChar sampleRows 0x10400 \<and> \<not> tagChar sampleRows 0xD801"
proof -
  have a: "tagChar sampleRows 97" and b: "\<not> isLead 97"
    by (simp_all add: tagChar_def sampleRows_def isLead_def)
  have pair: "replaceSpecialCharacters sampleRows [0xD801, 0xDC00] = [0xD801, 0xDC00]"
    by (simp add: tagChar_def sampleRows_def isLead_def isTrail_def codePoint_def)
  have "replaceSpecialCharacters sampleRows (replicate 255 97 @ [0xD801, 0xDC00])
          = replicate 255 97 @ [0xD801, 0xDC00]"
    unfolding replace_replicate [OF a b] pair ..
  then have "sanitizeGithubWorkflowName sampleRows (replicate 255 97 @ [0xD801, 0xDC00])
     = replicate 255 97 @ [0xD801]"
    by (simp add: sanitize_take)
  moreover have "codePoints [0xD801, 0xDC00] = [0x10400]"
    by (simp add: isLead_def isTrail_def codePoint_def)
  moreover have "tagChar sampleRows 0x10400 \<and> \<not> tagChar sampleRows 0xD801"
    by (simp add: tagChar_def sampleRows_def)
  ultimately show ?thesis by blast
qed


section \<open>Properties of the role assumption client\<close>

lemma js_Cons: "js (c # cs) = of_char c # js cs"
  by (simp add: js_def)

lemma js_Nil: "js [] = []"
  by (simp add: js_def)

lemma decimal_6: "js (decimal (Suc (Suc (Suc (Suc (Suc (Suc 0))))))) = js ''6''"
  by (simp add: decimal.simps js_def)

lemmas example_defs =
  exampleWorld_def exampleParams_def exampleEnv_def exampleInputs_def exampleRequest_def
  decimal_6

lemmas assume_defs =
  assumeRole_def prepareAssumeRole_def sendAssume_def callWithoutNew_def resolveRoleArn_def
  roleSessionTags_def webIdentityTokenFilePath_def isDefined_def isDefinedDuration_def
  orEmpty_def startsWith_def

lemma sendAssume_throws:
  "sendAssume w k r c q =
     (Inl (TypeError (js ''Class constructor '' @ js (className c)
                        @ js '' cannot be invoked without 'new'' @ js [CHR 0x27])), [])"
  by (simp add: sendAssume_def callWithoutNew_def)

lemma assumeRole_prepared:
  "assumeRole w k p =
     (case prepareAssumeRole w p of
        (Inl err, effects) \<Rightarrow> (Inl err, effects)
      | (Inr (c, q), effects) \<Rightarrow>
          (Inl (TypeError (js ''Class constructor '' @ js (className c)
                             @ js '' cannot be invoked without 'new'' @ js [CHR 0x27])), effects))"
  by (simp add: assumeRole_def sendAssume_throws split: prod.splits sum.splits)

lemma prepareAssumeRole_effects:
  "list_all beforeSigning (snd (prepareAssumeRole w p)) \<and> \<not> list_ex isStsSend (snd (prepareAssumeRole w p))"
  by (simp add: prepareAssumeRole_def Let_def split: sum.splits file_state.splits)

text \<open>Every call of \<open>assumeRole\<close> fails, and none sends anything to the STS service.\<close>

lemma assumeRole_always_fails: "isl (fst (assumeRole w k p))"
  by (simp add: assumeRole_prepared split: prod.splits sum.splits)

lemma assumeRole_effects: "snd (assumeRole w k p) = snd (prepareAssumeRole w p)"
  by (simp add: assumeRole_prepared split: prod.splits sum.splits)

lemma assumeRole_never_sends: "\<not> list_ex isStsSend (snd (assumeRole w k p))"
  using prepareAssumeRole_effects [of w p] by (simp add: assumeRole_effects)

text \<open>The request that \<open>assumeRole\<close> builds, whenever it builds one.\<close>

lemma prepareAssumeRole_built:
  assumes "prepareAssumeRole w p = (Inr (c, q), effects)"
  shows "resolveRoleArn (orEmpty (roleToAssume p)) (sourceAccountId p) = Inr (RoleArn q)
     \<and> (if isDefined (webIdentityToken p)
         then c = AssumeRoleWithWebIdentityCommand
              \<and> Tags q = None \<and> WebIdentityToken q = webIdentityToken p
         else if isDefined (webIdentityTokenFile p)
         then c = AssumeRoleCommand \<and> Tags q = None
              \<and> (\<exists>tokenPath token.
                    webIdentityTokenFilePath w (orEmpty (webIdentityTokenFile p)) = Inr tokenPath
                    \<and> files w tokenPath = Contents token \<and> WebIdentityToken q = Some token)
         else c = AssumeRoleCommand
              \<and> Tags q = Some (roleSessionTags w) \<and> WebIdentityToken q = None)"
  using assms
  by (auto simp: prepareAssumeRole_def Let_def split: if_splits sum.splits file_state.splits)

lemma exampleTags:
  "roleSessionTags exampleWorld =
     [ \<lparr>Key = ''GitHub'', Value = js ''Actions''\<rparr>,
       \<lparr>Key = ''Repository'', Value = js ''org/repo''\<rparr>,
       \<lparr>Key = ''Workflow'', Value = js ''CI Build _main_''\<rparr>,
       \<lparr>Key = ''Action'', Value = js ''run1''\<rparr>,
       \<lparr>Key = ''Actor'', Value = js ''dependabot_bot_''\<rparr>,
       \<lparr>Key = ''Commit'', Value = js ''abc123''\<rparr> ]"
  by (simp add: roleSessionTags_def example_defs orEmpty_def isDefined_def
      sanitizeGithubWorkflowName_def sanitizeGithubActor_def MAX_TAG_VALUE_LENGTH_def
      SANITIZATION_CHARACTER_def tagChar_def sampleRows_def isLead_def js_Cons js_Nil)

text \<open>
  Claim C1, on three calls that pass every assertion. With the inline token the request
  built has no \<open>Tags\<close> and carries the token; without a token it carries the six session
  tags of the environment, workflow and actor sanitized; with the token file it has no
  \<open>Tags\<close> and carries the contents of the file, the command class still being
  \<open>AssumeRoleCommand\<close>. In all three the call of the command class without \<open>new\<close> throws,
  so that \<open>assumeRole\<close> fails with that \<open>TypeError\<close> and its only effects are the
  diagnostics: no request is sent to the STS service.
\<close>

theorem assumeRole_throws_before_send:
  "prepareAssumeRole exampleWorld (exampleParams\<lparr>webIdentityToken := Some (js ''token'')\<rparr>)
     = (Inr (AssumeRoleWithWebIdentityCommand,
             \<lparr> RoleArn = js ''arn:aws:iam::123456789012:role/deploy'',
               RoleSessionName = Some (js ''GitHubActions''),
               DurationSeconds = Some (Seconds 3600),
               Tags = None, ExternalId = None, WebIdentityToken = Some (js ''token'') \<rparr>),
        [Debug (js ''6 role session tags are being used.'')])
   \<and> assumeRole exampleWorld 0 (exampleParams\<lparr>webIdentityToken := Some (js ''token'')\<rparr>)
     = (Inl (TypeError (js ''Class constructor AssumeRoleWithWebIdentityCommand cannot be invoked without 'new'' @ js [CHR 0x27])),
        [Debug (js ''6 role session tags are being used.'')])
   \<and> prepareAssumeRole exampleWorld exampleParams
     = (Inr (AssumeRoleCommand,
             \<lparr> RoleArn = js ''arn:aws:iam::123456789012:role/deploy'',
               RoleSessionName = Some (js ''GitHubActions''),
               DurationSeconds = Some (Seconds 3600),
               Tags = Some
                 [ \<lparr>Key = ''GitHub'', Value = js ''Actions''\<rparr>,
                   \<lparr>Key = ''Repository'', Value = js ''org/repo''\<rparr>,
                   \<lparr>Key = ''Workflow'', Value = js ''CI Build _main_''\<rparr>,
                   \<lparr>Key = ''Action'', Value = js ''run1''\<rparr>,
                   \<lparr>Key = ''Actor'', Value = js ''dependabot_bot_''\<rparr>,
                   \<lparr>Key = ''Commit'', Value = js ''abc123''\<rparr> ],
               ExternalId = None, WebIdentityToken = None \<rparr>),
        [Debug (js ''6 role session tags are being used.'')])
   \<and> assumeRole exampleWorld 0 exampleParams
     = (Inl (TypeError (js ''Class constructor AssumeRoleCommand cannot be invoked without 'new'' @ js [CHR 0x27])),
        [Debug (js ''6 role session tags are being used.'')])
   \<and> prepareAssumeRole tokenFileWorld (exampleParams\<lparr>webIdentityTokenFile := Some (js ''token.jwt'')\<rparr>)
     = (Inr (AssumeRoleCommand,
             \<lparr> RoleArn = js ''arn:aws:iam::123456789012:role/deploy'',
               RoleSessionName = Some (js ''GitHubActions''),
               DurationSeconds = Some (Seconds 3600),
               Tags = None, ExternalId = None, WebIdentityToken = Some (js ''file-token'') \<rparr>),
        [Debug (js ''6 role session tags are being used.''),
         Debug (js ''webIdentityTokenFile provided. Will call sts:AssumeRoleWithWebIdentity and take session tags from token contents.'')])
   \<and> assumeRole tokenFileWorld 0 (exampleParams\<lparr>webIdentityTokenFile := Some (js ''token.jwt'')\<rparr>)
     = (Inl (TypeError (js ''Class constructor AssumeRoleCommand cannot be invoked without 'new'' @ js [CHR 0x27])),
        [Debug (js ''6 role session tags are being used.''),
         Debug (js ''webIdentityTokenFile provided. Will call sts:AssumeRoleWithWebIdentity and take session tags from token contents.'')])"
proof -
  have tags: "roleSessionTags tokenFileWorld = roleSessionTags exampleWorld"
    by (simp add: roleSessionTags_def tokenFileWorld_def exampleWorld_def)
  have a: "prepareAssumeRole exampleWorld (exampleParams\<lparr>webIdentityToken := Some (js ''token'')\<rparr>)
     = (Inr (AssumeRoleWithWebIdentityCommand,
             \<lparr> RoleArn = js ''arn:aws:iam::123456789012:role/deploy'',
               RoleSessionName = Some (js ''GitHubActions''),
               DurationSeconds = Some (Seconds 3600),
               Tags = None, ExternalId = None, WebIdentityToken = Some (js ''token'') \<rparr>),
        [Debug (js ''6 role session tags are being used.'')])"
    unfolding prepareAssumeRole_def exampleTags
    by (simp add: example_defs resolveRoleArn_def isDefined_def isDefinedDuration_def
        orEmpty_def startsWith_def Let_def js_Cons js_Nil)
  have b: "prepareAssumeRole exampleWorld exampleParams
     = (Inr (AssumeRoleCommand,
             \<lparr> RoleArn = js ''arn:aws:iam::123456789012:role/deploy'',
               RoleSessionName = Some (js ''GitHubActions''),
               DurationSeconds = Some (Seconds 3600),
               Tags = Some (roleSessionTags exampleWorld),
               ExternalId = None, WebIdentityToken = None \<rparr>),
        [Debug (js ''6 role session tags are being used.'')])"
    unfolding prepareAssumeRole_def exampleTags
    by (simp add: example_defs resolveRoleArn_def isDefined_def isDefinedDuration_def
        orEmpty_def startsWith_def Let_def js_Cons js_Nil)
  have c: "prepareAssumeRole tokenFileWorld (exampleParams\<lparr>webIdentityTokenFile := Some (js ''token.jwt'')\<rparr>)
     = (Inr (AssumeRoleCommand,
             \<lparr> RoleArn = js ''arn:aws:iam::123456789012:role/deploy'',
               RoleSessionName = Some (js ''GitHubActions''),
               DurationSeconds = Some (Seconds 3600),
               Tags = None, ExternalId = None, WebIdentityToken = Some (js ''file-token'') \<rparr>),
        [Debug (js ''6 role session tags are being used.''),
         Debug (js ''webIdentityTokenFile provided. Will call sts:AssumeRoleWithWebIdentity and take session tags from token contents.'')])"
    unfolding prepareAssumeRole_def tags exampleTags
    by (simp add: tokenFileWorld_def example_defs resolveRoleArn_def isDefined_def
        isDefinedDuration_def orEmpty_def startsWith_def webIdentityTokenFilePath_def
        Let_def js_Cons js_Nil)
  show ?thesis
    unfolding assumeRole_prepared a b c exampleTags
    by (simp add: js_Cons js_Nil)
qed

text \<open>
  Claim C5. Take a call of \<open>assumeRole\<close> whose \<open>roleToAssume\<close> is the string \<open>role\<close>. Whenever
  the call builds its request, the \<open>RoleArn\<close> of the request is \<open>role\<close> itself when \<open>role\<close>
  starts with \<open>arn:aws\<close>, and otherwise a source account is defined and \<open>RoleArn\<close> is
  \<open>arn:aws:iam::<sourceAccountId>:role/<role>\<close>. A bare role name without a source account
  makes the call fail before any request is built, with the assertion error on the
  source account once the earlier assertions on the inputs and the environment have
  passed. And the request is built, once those assertions have passed, whenever the role
  is in ARN form or a source account is defined, and the token is given inline or no
  token file is named.
\<close>

theorem assumeRole_role_arn:
  assumes "roleToAssume p = Some role"
  shows "(\<forall>c q effects. prepareAssumeRole w p = (Inr (c, q), effects) \<longrightarrow>
            (startsWith role (js ''arn:aws'') \<longrightarrow> RoleArn q = role)
          \<and> (\<not> startsWith role (js ''arn:aws'') \<longrightarrow>
               isDefined (sourceAccountId p)
               \<and> RoleArn q = js ''arn:aws:iam::'' @ orEmpty (sourceAccountId p) @ js '':role/'' @ role))
       \<and> (\<not> startsWith role (js ''arn:aws'') \<and> \<not> isDefined (sourceAccountId p) \<longrightarrow>
            isl (fst (prepareAssumeRole w p)) \<and> isl (fst (assumeRole w k p)))
       \<and> (\<not> startsWith role (js ''arn:aws'') \<and> \<not> isDefined (sourceAccountId p)
            \<and> role \<noteq> [] \<and> isDefinedDuration (roleDurationSeconds p)
            \<and> isDefined (roleSessionName p) \<and> isDefined (region p)
            \<and> list_all (\<lambda>name. isDefined (env w name))
                 [''GITHUB_REPOSITORY'', ''GITHUB_WORKFLOW'', ''GITHUB_ACTION'',
                  ''GITHUB_ACTOR'', ''GITHUB_SHA''] \<longrightarrow>
            fst (assumeRole w k p) = Inl (AssertionError (js
              ''Source Account ID is needed if the Role Name is provided and not the Role Arn.'')))
       \<and> ((startsWith role (js ''arn:aws'') \<or> isDefined (sourceAccountId p))
            \<and> (isDefined (webIdentityToken p) \<or> \<not> isDefined (webIdentityTokenFile p))
            \<and> role \<noteq> [] \<and> isDefinedDuration (roleDurationSeconds p)
            \<and> isDefined (roleSessionName p) \<and> isDefined (region p)
            \<and> list_all (\<lambda>name. isDefined (env w name))
                 [''GITHUB_REPOSITORY'', ''GITHUB_WORKFLOW'', ''GITHUB_ACTION'',
                  ''GITHUB_ACTOR'', ''GITHUB_SHA''] \<longrightarrow>
            \<not> isl (fst (prepareAssumeRole w p)))"
proof (intro conjI allI impI)
  fix c q effects
  assume built: "prepareAssumeRole w p = (Inr (c, q), effects)"
  from prepareAssumeRole_built [OF built] assms
  have arn: "resolveRoleArn role (sourceAccountId p) = Inr (RoleArn q)"
    by (auto simp: orEmpty_def)
  {
    assume "startsWith role (js ''arn:aws'')"
    with arn show "RoleArn q = role" by (simp add: resolveRoleArn_def)
  next
    assume bare: "\<not> startsWith role (js ''arn:aws'')"
    with arn show "isDefined (sourceAccountId p)"
      by (simp add: resolveRoleArn_def split: if_splits)
    with arn bare
    show "RoleArn q = js ''arn:aws:iam::'' @ orEmpty (sourceAccountId p) @ js '':role/'' @ role"
      by (simp add: resolveRoleArn_def)
  }
next
  assume h: "\<not> startsWith role (js ''arn:aws'') \<and> \<not> isDefined (sourceAccountId p)"
  with assms show "isl (fst (prepareAssumeRole w p))"
    by (simp add: prepareAssumeRole_def resolveRoleArn_def orEmpty_def)
  show "isl (fst (assumeRole w k p))"
    by (rule assumeRole_always_fails)
next
  assume "\<not> startsWith role (js ''arn:aws'') \<and> \<not> isDefined (sourceAccountId p)
            \<and> role \<noteq> [] \<and> isDefinedDuration (roleDurationSeconds p)
            \<and> isDefined (roleSessionName p) \<and> isDefined (region p)
            \<and> list_all (\<lambda>name. isDefined (env w name))
                 [''GITHUB_REPOSITORY'', ''GITHUB_WORKFLOW'', ''GITHUB_ACTION'',
                  ''GITHUB_ACTOR'', ''GITHUB_SHA'']"
  with assms show "fst (assumeRole w k p) = Inl (AssertionError (js
              ''Source Account ID is needed if the Role Name is provided and not the Role Arn.''))"
    by (simp add: assumeRole_def prepareAssumeRole_def resolveRoleArn_def orEmpty_def
        isDefined_def)
next
  assume "(startsWith role (js ''arn:aws'') \<or> isDefined (sourceAccountId p))
            \<and> (isDefined (webIdentityToken p) \<or> \<not> isDefined (webIdentityTokenFile p))
            \<and> role \<noteq> [] \<and> isDefinedDuration (roleDurationSeconds p)
            \<and> isDefined (roleSessionName p) \<and> isDefined (region p)
            \<and> list_all (\<lambda>name. isDefined (env w name))
                 [''GITHUB_REPOSITORY'', ''GITHUB_WORKFLOW'', ''GITHUB_ACTION'',
                  ''GITHUB_ACTOR'', ''GITHUB_SHA'']"
  with assms show "\<not> isl (fst (prepareAssumeRole w p))"
    by (auto simp: prepareAssumeRole_def resolveRoleArn_def orEmpty_def isDefined_def Let_def)
qed

theorem assumeRole_role_arn_witness:
  "roleToAssume exampleParams = Some (js ''deploy'')
   \<and> \<not> startsWith (js ''deploy'') (js ''arn:aws'')
   \<and> map_sum id (\<lambda>built. RoleArn (snd built)) (fst (prepareAssumeRole exampleWorld exampleParams))
       = Inr (js ''arn:aws:iam::123456789012:role/deploy'')
   \<and> roleToAssume arnParams = Some (js ''arn:aws:iam::123456789012:role/deploy'')
   \<and> startsWith (js ''arn:aws:iam::123456789012:role/deploy'') (js ''arn:aws'')
   \<and> map_sum id (\<lambda>built. RoleArn (snd built)) (fst (prepareAssumeRole exampleWorld arnParams))
       = Inr (js ''arn:aws:iam::123456789012:role/deploy'')
   \<and> fst (assumeRole exampleWorld 0 (exampleParams\<lparr>sourceAccountId := None\<rparr>))
       = Inl (AssertionError (js
              ''Source Account ID is needed if the Role Name is provided and not the Role Arn.''))"
proof -
  have bare: "roleToAssume exampleParams = Some (js ''deploy'')"
    and bare': "roleToAssume (exampleParams\<lparr>sourceAccountId := None\<rparr>) = Some (js ''deploy'')"
    and full: "roleToAssume arnParams = Some (js ''arn:aws:iam::123456789012:role/deploy'')"
    by (simp_all add: exampleParams_def arnParams_def)
  obtain c q e where b: "prepareAssumeRole exampleWorld exampleParams = (Inr (c, q), e)"
    by (simp add: prepareAssumeRole_def example_defs resolveRoleArn_def isDefined_def
        isDefinedDuration_def orEmpty_def startsWith_def Let_def js_Cons js_Nil)
  obtain c' q' e' where f: "prepareAssumeRole exampleWorld arnParams = (Inr (c', q'), e')"
    by (simp add: prepareAssumeRole_def arnParams_def example_defs resolveRoleArn_def
        isDefined_def isDefinedDuration_def orEmpty_def startsWith_def Let_def js_Cons js_Nil)
  have s: "\<not> startsWith (js ''deploy'') (js ''arn:aws'')"
    "startsWith (js ''arn:aws:iam::123456789012:role/deploy'') (js ''arn:aws'')"
    by (simp_all add: startsWith_def js_Cons js_Nil)
  from assumeRole_role_arn [OF bare, of exampleWorld 0] b s
  have r1: "RoleArn q = js ''arn:aws:iam::'' @ orEmpty (sourceAccountId exampleParams)
             @ js '':role/'' @ js ''deploy''"
    by blast
  from assumeRole_role_arn [OF full, of exampleWorld 0] f s
  have r2: "RoleArn q' = js ''arn:aws:iam::123456789012:role/deploy''"
    by blast
  have r3: "fst (assumeRole exampleWorld 0 (exampleParams\<lparr>sourceAccountId := None\<rparr>))
       = Inl (AssertionError (js
              ''Source Account ID is needed if the Role Name is provided and not the Role Arn.''))"
    using assumeRole_role_arn [OF bare', of exampleWorld 0] s
    by (simp add: example_defs isDefined_def isDefinedDuration_def js_Cons)
  from r1 have r1': "RoleArn q = js ''arn:aws:iam::123456789012:role/deploy''"
    by (simp add: exampleParams_def orEmpty_def js_def)
  from bare full s b f r1' r2 r3 show ?thesis
    by simp
qed

text \<open>
  Claim C9. Take a call of \<open>assumeRole\<close> with no inline token and the token file
  \<open>tokenFile\<close>. A relative path is joined to \<open>GITHUB_WORKSPACE\<close>, an absolute one is kept.
  If the file at the resolved path does not exist or cannot be read, the call fails and
  no request has been sent to the STS service; when the call gets as far as the token
  (the assertions on the inputs and the environment pass and the role resolves), the
  error is \<open>Web identity token file does not exist: <resolved path>\<close> for a missing
  file and \<open>Web identity token file could not be read: <message>\<close> for an unreadable one.
\<close>

theorem assumeRole_token_file:
  assumes "\<not> isDefined (webIdentityToken p)"
    and "webIdentityTokenFile p = Some tokenFile" and "tokenFile \<noteq> []"
  shows "(\<not> isAbsolute w tokenFile \<and> env w ''GITHUB_WORKSPACE'' = Some workspace \<longrightarrow>
            webIdentityTokenFilePath w tokenFile = Inr (pathJoin w workspace tokenFile))
       \<and> (isAbsolute w tokenFile \<longrightarrow> webIdentityTokenFilePath w tokenFile = Inr tokenFile)
       \<and> (webIdentityTokenFilePath w tokenFile = Inr tokenPath
            \<and> (files w tokenPath = Absent \<or> files w tokenPath = Unreadable why) \<longrightarrow>
            isl (fst (assumeRole w k p)) \<and> \<not> list_ex isStsSend (snd (assumeRole w k p)))
       \<and> (webIdentityTokenFilePath w tokenFile = Inr tokenPath
            \<and> isDefined (roleToAssume p) \<and> isDefinedDuration (roleDurationSeconds p)
            \<and> isDefined (roleSessionName p) \<and> isDefined (region p)
            \<and> list_all (\<lambda>name. isDefined (env w name))
                 [''GITHUB_REPOSITORY'', ''GITHUB_WORKFLOW'', ''GITHUB_ACTION'',
                  ''GITHUB_ACTOR'', ''GITHUB_SHA'']
            \<and> \<not> isl (resolveRoleArn (orEmpty (roleToAssume p)) (sourceAccountId p)) \<longrightarrow>
            (files w tokenPath = Absent \<longrightarrow>
               fst (assumeRole w k p) =
                 Inl (Error (js ''Web identity token file does not exist: '' @ tokenPath)))
            \<and> (files w tokenPath = Unreadable why \<longrightarrow>
               fst (assumeRole w k p) =
                 Inl (Error (js ''Web identity token file could not be read: '' @ why))))"
proof -
  have given: "isDefined (webIdentityTokenFile p)" "orEmpty (webIdentityTokenFile p) = tokenFile"
    using assms by (simp_all add: isDefined_def orEmpty_def)
  show ?thesis
  proof (intro conjI impI)
    assume "\<not> isAbsolute w tokenFile \<and> env w ''GITHUB_WORKSPACE'' = Some workspace"
    then show "webIdentityTokenFilePath w tokenFile = Inr (pathJoin w workspace tokenFile)"
      by (simp add: webIdentityTokenFilePath_def)
  next
    assume "isAbsolute w tokenFile"
    then show "webIdentityTokenFilePath w tokenFile = Inr tokenFile"
      by (simp add: webIdentityTokenFilePath_def)
  next
    assume h: "webIdentityTokenFilePath w tokenFile = Inr tokenPath
            \<and> (files w tokenPath = Absent \<or> files w tokenPath = Unreadable why)"
    show "isl (fst (assumeRole w k p))"
      by (rule assumeRole_always_fails)
    show "\<not> list_ex isStsSend (snd (assumeRole w k p))"
      by (rule assumeRole_never_sends)
  next
    assume h: "webIdentityTokenFilePath w tokenFile = Inr tokenPath
            \<and> isDefined (roleToAssume p) \<and> isDefinedDuration (roleDurationSeconds p)
            \<and> isDefined (roleSessionName p) \<and> isDefined (region p)
            \<and> list_all (\<lambda>name. isDefined (env w name))
                 [''GITHUB_REPOSITORY'', ''GITHUB_WORKFLOW'', ''GITHUB_ACTION'',
                  ''GITHUB_ACTOR'', ''GITHUB_SHA'']
            \<and> \<not> isl (resolveRoleArn (orEmpty (roleToAssume p)) (sourceAccountId p))"
    then obtain arn where arn: "resolveRoleArn (orEmpty (roleToAssume p)) (sourceAccountId p) = Inr arn"
      by (cases "resolveRoleArn (orEmpty (roleToAssume p)) (sourceAccountId p)") auto
    {
      assume "files w tokenPath = Absent"
      with h arn assms(1) given show "fst (assumeRole w k p) =
                 Inl (Error (js ''Web identity token file does not exist: '' @ tokenPath))"
        by (simp add: assumeRole_def prepareAssumeRole_def Let_def)
    next
      assume "files w tokenPath = Unreadable why"
      with h arn assms(1) given show "fst (assumeRole w k p) =
                 Inl (Error (js ''Web identity token file could not be read: '' @ why))"
        by (simp add: assumeRole_def prepareAssumeRole_def Let_def)
    }
  qed
qed

theorem assumeRole_token_file_witness:
  "\<not> isDefined (webIdentityToken (exampleParams\<lparr>webIdentityTokenFile := Some (js ''token.jwt'')\<rparr>))
   \<and> \<not> isAbsolute exampleWorld (js ''token.jwt'')
   \<and> env exampleWorld ''GITHUB_WORKSPACE'' = Some (js ''/ws'')
   \<and> webIdentityTokenFilePath exampleWorld (js ''token.jwt'') = Inr (js ''/ws/token.jwt'')
   \<and> files exampleWorld (js ''/ws/token.jwt'') = Absent
   \<and> assumeRole exampleWorld 0 (exampleParams\<lparr>webIdentityTokenFile := Some (js ''token.jwt'')\<rparr>)
       = (Inl (Error (js ''Web identity token file does not exist: /ws/token.jwt'')),
          [Debug (js ''6 role session tags are being used.''),
           Debug (js ''webIdentityTokenFile provided. Will call sts:AssumeRoleWithWebIdentity and take session tags from token contents.'')])"
proof -
  let ?p = "exampleParams\<lparr>webIdentityTokenFile := Some (js ''token.jwt'')\<rparr>"
  have a: "\<not> isDefined (webIdentityToken ?p)"
    and b: "webIdentityTokenFile ?p = Some (js ''token.jwt'')" and c: "js ''token.jwt'' \<noteq> []"
    by (simp_all add: exampleParams_def isDefined_def js_Cons)
  have effects: "snd (assumeRole exampleWorld 0 ?p) =
          [Debug (js ''6 role session tags are being used.''),
           Debug (js ''webIdentityTokenFile provided. Will call sts:AssumeRoleWithWebIdentity and take session tags from token contents.'')]"
    by (simp add: assume_defs example_defs Let_def js_Cons js_Nil)
  from assumeRole_token_file [OF a b c, of exampleWorld "js ''/ws''" "js ''/ws/token.jwt''" "[]" 0]
    effects
  show ?thesis
    by (simp add: example_defs isDefined_def isDefinedDuration_def resolveRoleArn_def orEmpty_def
        startsWith_def js_Cons js_Nil prod_eq_iff)
qed


section \<open>Properties of the request presigner\<close>

text \<open>
  Claim C8. For every region and all credentials, the request that
  \<open>presignGetCallerIdentity\<close> hands to the signer has the method \<open>GET\<close>, the single header
  \<open>host\<close> (with the value the created request had), the query parameters
  \<open>Action = GetCallerIdentity\<close> and \<open>Version = 2011-06-15\<close> and nothing else, and an empty
  body. The signer is called once whenever the request could be created, and what the
  function returns is one string: the URL that the formatter makes of the signer's
  output. Signer and formatter belong to the SDK and are parameters here.
\<close>

theorem presignGetCallerIdentity_request:
  "(\<forall>q. Presign q \<in> set (snd (presignGetCallerIdentity w r c)) \<longrightarrow>
        requestMethod q = js ''GET''
      \<and> map fst (headers q) = [''host'']
      \<and> query q = [(''Action'', js ''GetCallerIdentity''), (''Version'', js ''2011-06-15'')]
      \<and> body q = [])
   \<and> (\<forall>created. createRequest w r c = Inr created \<longrightarrow>
        (\<exists>q. snd (presignGetCallerIdentity w r c) = [Presign q]
             \<and> header q ''host'' = header created ''host''
             \<and> fst (presignGetCallerIdentity w r c) = map_sum id (formatUrl w) (presign w q)))
   \<and> (\<forall>url. fst (presignGetCallerIdentity w r c) = Inr url \<longrightarrow>
        (\<exists>q presigned. snd (presignGetCallerIdentity w r c) = [Presign q]
             \<and> presign w q = Inr presigned \<and> url = formatUrl w presigned))"
  by (auto simp: presignGetCallerIdentity_def Let_def header_def js_Nil split: sum.splits)

theorem presignGetCallerIdentity_request_witness:
  "presignGetCallerIdentity exampleWorld (js ''us-east-1'')
      \<lparr>accessKeyId = Some (js ''ASIA''), secretAccessKey = Some (js ''secret''),
       sessionToken = Some (js ''session'')\<rparr>
    = (Inr (js ''https://sts.us-east-1.amazonaws.com/?Action=GetCallerIdentity&Version=2011-06-15&X-Amz-Signature=5d6f''),
       [Presign \<lparr> requestMethod = js ''GET'', protocol = js ''https:'',
                  hostname = js ''sts.us-east-1.amazonaws.com'', path = js ''/'',
                  headers = [(''host'', Some (js ''sts.us-east-1.amazonaws.com''))],
                  query = [(''Action'', js ''GetCallerIdentity''), (''Version'', js ''2011-06-15'')],
                  body = js [] \<rparr>])"
  using presignGetCallerIdentity_request [of exampleWorld "js ''us-east-1''"
      "\<lparr>accessKeyId = Some (js ''ASIA''), secretAccessKey = Some (js ''secret''),
       sessionToken = Some (js ''session'')\<rparr>"]
  by (simp add: presignGetCallerIdentity_def example_defs header_def Let_def js_Cons js_Nil)


section \<open>Properties of the run and of the broker client\<close>

lemma assumeRole_effects_kind:
  "list_all beforeSigning (snd (assumeRole w k p))"
  using prepareAssumeRole_effects [of w p] by (simp add: assumeRole_effects)

lemma presign_effects_kind:
  "presignGetCallerIdentity w r c = (out, signing) \<Longrightarrow>
     (signing = [] \<and> isl out) \<or> (\<exists>q. signing = [Presign q])"
  by (auto simp: presignGetCallerIdentity_def Let_def split: sum.splits)

lemma getCredentials_effects:
  "snd (getCredentials w url accountName) = [AxiosPost LAMBDA_URL url accountName]"
  by (simp add: getCredentials_def split: sum.splits response_data.splits)

lemma retry_assume_early:
  assumes "retryAndBackoff Sleep random (\<lambda>k. assumeRole w k p) isRetryable retries maxRetries base
             \<lparr>calls = 0, trace = before\<rparr> = Some (out, st)"
    and "list_all beforeSigning before"
  shows "list_all beforeSigning (trace st)"
proof -
  have "\<forall>e\<in>set (trace (snd (out, st))). beforeSigning e"
    using assms(1)
  proof (rule retry_trace_invariant)
    show "\<forall>k. \<forall>e\<in>set (snd (assumeRole w k p)). beforeSigning e"
      using assumeRole_effects_kind by (simp add: list_all_iff)
    show "\<forall>d. beforeSigning (Sleep d)" by simp
    show "\<forall>e\<in>set (trace \<lparr>calls = 0, trace = before\<rparr>). beforeSigning e"
      using assms(2) by (simp add: list_all_iff)
  qed
  then show ?thesis by (simp add: list_all_iff)
qed


lemma early_no_credentials:
  "list_all beforeSigning effects \<Longrightarrow> \<not> list_ex isCredentialExport effects"
proof (induction effects)
  case Nil
  show ?case by simp
next
  case (Cons e effects)
  then show ?case by (cases e) auto
qed

lemma early_no_exchange:
  "list_all beforeSigning effects \<Longrightarrow> filter isAxiosPost effects = []"
proof (induction effects)
  case Nil
  show ?case by simp
next
  case (Cons e effects)
  then show ?case by (cases e) auto
qed

lemma export_no_exchange: "filter isAxiosPost (exportCredentials w c) = []"
  by (simp add: exportCredentials_def)

lemma exchange_failure_no_credentials:
  assumes "exchangeAndExport w r accountName c = (Inl err, effects)"
  shows "\<not> list_ex isCredentialExport effects"
proof -
  obtain signed signing where s: "presignGetCallerIdentity w r c = (signed, signing)"
    by (cases "presignGetCallerIdentity w r c")
  from presign_effects_kind [OF s]
  have quiet: "\<not> list_ex isCredentialExport signing"
    by auto
  show ?thesis
  proof (cases signed)
    case (Inl e)
    with assms s quiet show ?thesis
      by (simp add: exchangeAndExport_def)
  next
    case (Inr url)
    obtain final exchange where g: "getCredentials w url accountName = (final, exchange)"
      by (cases "getCredentials w url accountName")
    with getCredentials_effects [of w url accountName]
    have x: "exchange = [AxiosPost LAMBDA_URL url accountName]" by simp
    from assms s Inr g x quiet show ?thesis
      by (cases final) (auto simp: exchangeAndExport_def)
  qed
qed

lemma exchange_posts_once:
  "length (filter isAxiosPost (snd (exchangeAndExport w r accountName c))) \<le> 1"
proof -
  obtain signed signing where s: "presignGetCallerIdentity w r c = (signed, signing)"
    by (cases "presignGetCallerIdentity w r c")
  from presign_effects_kind [OF s]
  have quiet: "filter isAxiosPost signing = []"
    by auto
  show ?thesis
  proof (cases signed)
    case (Inl e)
    with s quiet show ?thesis
      by (simp add: exchangeAndExport_def)
  next
    case (Inr url)
    obtain final exchange where g: "getCredentials w url accountName = (final, exchange)"
      by (cases "getCredentials w url accountName")
    with getCredentials_effects [of w url accountName]
    have x: "exchange = [AxiosPost LAMBDA_URL url accountName]" by simp
    from s Inr g x quiet show ?thesis
      by (cases final) (simp_all add: exchangeAndExport_def export_no_exchange)
  qed
qed

lemma assumeAndExchange_effects:
  assumes run: "assumeAndExchange w r accountName p before = Some (out, effects)"
    and early: "list_all beforeSigning before"
  shows "(isl out \<longrightarrow> \<not> list_ex isCredentialExport effects)
       \<and> length (filter isAxiosPost effects) \<le> 1"
proof (cases "retryAndBackoff Sleep (mathRandom w) (\<lambda>k. assumeRole w k p) True 0 12 50
             \<lparr>calls = 0, trace = before\<rparr>")
  case None
  with run show ?thesis by (simp add: assumeAndExchange_def)
next
  case (Some y)
  obtain assumed st where y: "y = (assumed, st)" by (cases y)
  from Some y early have pre: "list_all beforeSigning (trace st)"
    by (auto intro: retry_assume_early)
  note a = early_no_credentials [OF pre] and b = early_no_exchange [OF pre]
  show ?thesis
  proof (cases assumed)
    case (Inl err)
    with run Some y have "effects = trace st"
      by (simp add: assumeAndExchange_def)
    with a b show ?thesis by simp
  next
    case (Inr initialCredentials)
    obtain result after where x: "exchangeAndExport w r accountName initialCredentials = (result, after)"
      by (cases "exchangeAndExport w r accountName initialCredentials")
    with run Some y Inr have e: "effects = trace st @ after" "out = result"
      by (simp_all add: assumeAndExchange_def)
    from exchange_posts_once [of w r accountName initialCredentials] x
    have posts: "length (filter isAxiosPost after) \<le> 1"
      by simp
    have "isl result \<longrightarrow> \<not> list_ex isCredentialExport after"
    proof
      assume "isl result"
      then obtain err where "result = Inl err" by (cases result) auto
      with x show "\<not> list_ex isCredentialExport after"
        by (auto dest: exchange_failure_no_credentials)
    qed
    with e a b posts show ?thesis by simp
  qed
qed

lemma stage_cases:
  assumes "(case x of Inl err \<Rightarrow> Some (Inl err, effects0) | Inr v \<Rightarrow> f v) = Some (out, effects)"
  obtains (failed) err where "x = Inl err" "out = Inl err" "effects = effects0"
        | (passed) v where "x = Inr v" "f v = Some (out, effects)"
  using assms by (cases x) auto

lemma early_effects:
  "list_all beforeSigning effects \<Longrightarrow>
   (isl out \<longrightarrow> \<not> list_ex isCredentialExport effects) \<and> length (filter isAxiosPost effects) \<le> 1"
  by (simp add: early_no_credentials early_no_exchange)

lemma runBody_effects:
  assumes "runBody w = Some (out, effects)"
  shows "(isl out \<longrightarrow> \<not> list_ex isCredentialExport effects)
       \<and> length (filter isAxiosPost effects) \<le> 1"
  using assms unfolding runBody_def
  apply (elim stage_cases)
          apply (rule early_effects, simp)
         apply (rule early_effects, simp)
        apply (rule early_effects, simp)
       apply (rule early_effects, simp)
      apply (rule early_effects, simp)
     apply (rule early_effects, simp)
    apply (rule early_effects, simp)
   apply (rule early_effects, simp)
  subgoal premises prems for r audience accountName durationInput nameInput tokenFile role token
  proof (cases "matchesRegionRegex r")
    case False
    with prems(9) have "effects = [GetIDToken audience]"
      by simp
    then have "list_all beforeSigning effects"
      by simp
    then show ?thesis by (rule early_effects)
  next
    case valid: True
    show ?thesis
    proof (cases "isDefined (Some role)")
      case False
      with valid prems(9) have "effects = GetIDToken audience # exportRegion r"
        by simp
      then have "list_all beforeSigning effects"
        by (simp add: exportRegion_def)
      then show ?thesis by (rule early_effects)
    next
      case True
      with valid prems(9) have "\<exists>p. assumeAndExchange w r accountName p
          (GetIDToken audience # exportRegion r) = Some (out, effects)"
        by (simp only: not_True_eq_False if_False) (rule exI)
      then obtain p where run: "assumeAndExchange w r accountName p
          (GetIDToken audience # exportRegion r) = Some (out, effects)" ..
      have early: "list_all beforeSigning (GetIDToken audience # exportRegion r)"
        by (simp add: exportRegion_def)
      from run early show ?thesis by (rule assumeAndExchange_effects)
    qed
  qed
  done



lemmas world_defs =
  incompleteBrokerWorld_def brokerFailureWorld_def invalidRegionWorld_def tokenFailureWorld_def

text \<open>The scenario of the specification. The action reads its inputs, obtains the token
  of the platform and exports the region; each of the twelve attempts of \<open>assumeRole\<close>
  then builds its request and throws at the call of the command class, the executor
  sleeping after each; the run reports the last \<open>TypeError\<close>. Nothing is sent to the STS
  service, the signer or the broker.\<close>

lemma run_exampleWorld:
  "runBody exampleWorld =
     Some (Inl (TypeError (js ''Class constructor AssumeRoleWithWebIdentityCommand cannot be invoked without 'new'' @ js [CHR 0x27])),
       [ GetIDToken [],
         ExportVariable ''AWS_DEFAULT_REGION'' (Some (js ''us-east-1'')),
         ExportVariable ''AWS_REGION'' (Some (js ''us-east-1'')) ]
       @ concat (map (\<lambda>delay. [Debug (js ''6 role session tags are being used.''), Sleep delay])
           [25, 50, 100, 200, 400, 800, 1600, 3200, 6400, 12800, 25600, 51200]))"
proof -
  let ?p = "\<lparr> sourceAccountId = None,
               roleToAssume = Some (js ''arn:aws:iam::<SOME_ACCOUNT>:role/github-org/repo''),
               roleExternalId = None,
               roleDurationSeconds = Some (Seconds 3600),
               roleSessionName = Some (js ''GitHubActions''),
               region = Some (js ''us-east-1''),
               webIdentityTokenFile = Some [],
               webIdentityToken = Some (js ''token'') \<rparr>"
  let ?err = "TypeError (js ''Class constructor AssumeRoleWithWebIdentityCommand cannot be invoked without 'new'' @ js [CHR 0x27])"
  let ?before = "[GetIDToken [], ExportVariable ''AWS_DEFAULT_REGION'' (Some (js ''us-east-1'')),
         ExportVariable ''AWS_REGION'' (Some (js ''us-east-1''))]"
  let ?st = "\<lparr>calls = 0, trace = ?before\<rparr>"
  have built: "prepareAssumeRole exampleWorld ?p =
      (Inr (AssumeRoleWithWebIdentityCommand,
            \<lparr> RoleArn = js ''arn:aws:iam::<SOME_ACCOUNT>:role/github-org/repo'',
              RoleSessionName = Some (js ''GitHubActions''),
              DurationSeconds = Some (Seconds 3600),
              Tags = None, ExternalId = None, WebIdentityToken = Some (js ''token'') \<rparr>),
       [Debug (js ''6 role session tags are being used.'')])"
    by (simp add: prepareAssumeRole_def resolveRoleArn_def roleSessionTags_def isDefined_def
        isDefinedDuration_def orEmpty_def startsWith_def example_defs Let_def js_Cons js_Nil)
  have assumed: "assumeRole exampleWorld k ?p =
      (Inl ?err, [Debug (js ''6 role session tags are being used.'')])" for k
    unfolding assumeRole_prepared built by (simp add: js_def)
  have fails: "\<forall>k. isl (fst (assumeRole exampleWorld k ?p))"
    by (simp add: assumeRole_always_fails)
  have lt: "(0::nat) < 12" by simp
  have half: "mathRandom exampleWorld k = 1 / 2" for k
    by (simp add: exampleWorld_def)
  have retry: "retryAndBackoff Sleep (mathRandom exampleWorld)
          (\<lambda>k. assumeRole exampleWorld k ?p) True 0 12 50 ?st =
        Some (Inl ?err,
          \<lparr>calls = 12,
           trace = ?before @ concat (map (\<lambda>delay. [Debug (js ''6 role session tags are being used.''), Sleep delay])
           [25, 50, 100, 200, 400, 800, 1600, 3200, 6400, 12800, 25600, 51200])\<rparr>)"
    using retry_exhausts [where fn = "\<lambda>k. assumeRole exampleWorld k ?p" and st = ?st
        and sleep = Sleep and random = "mathRandom exampleWorld"
        and retries = 0 and maxRetries = 12 and base = 50, OF fails lt]
    by (simp add: assumed failedEffects_def attemptEffects_def upt_12 half)
  have stage: "assumeAndExchange exampleWorld (js ''us-east-1'') (js ''prod'') ?p ?before =
     Some (Inl ?err,
           ?before @ concat (map (\<lambda>delay. [Debug (js ''6 role session tags are being used.''), Sleep delay])
           [25, 50, 100, 200, 400, 800, 1600, 3200, 6400, 12800, 25600, 51200]))"
    unfolding assumeAndExchange_def retry by simp
  have inputs: "getInput exampleWorld ''aws-region'' True = Inr (js ''us-east-1'')"
    "getInput exampleWorld ''audience'' False = Inr []"
    "getInput exampleWorld ''account-name'' True = Inr (js ''prod'')"
    "getInput exampleWorld ''role-duration-seconds'' False = Inr []"
    "getInput exampleWorld ''role-session-name'' False = Inr []"
    "getInput exampleWorld ''web-identity-token-file'' False = Inr []"
    "getRoleToAssume exampleWorld = Inr (js ''arn:aws:iam::<SOME_ACCOUNT>:role/github-org/repo'')"
    "getIDToken exampleWorld [] = Inr (js ''token'')"
    "matchesRegionRegex (js ''us-east-1'')"
    by (simp_all add: example_defs world_defs getRoleToAssume_def isDefined_def orEmpty_def
        matchesRegionRegex_def regionChar_def js_Cons js_Nil)
  have role: "isDefined (Some (js ''arn:aws:iam::<SOME_ACCOUNT>:role/github-org/repo''))"
    by (simp add: isDefined_def js_Cons)
  have "runBody exampleWorld =
     assumeAndExchange exampleWorld (js ''us-east-1'') (js ''prod'') ?p ?before"
    by (simp add: runBody_def inputs role js_Nil DEFAULT_ROLE_DURATION_FOR_OIDC_ROLES_def
        ROLE_SESSION_NAME_def exportRegion_def)
  then show ?thesis
    unfolding stage by simp
qed

text \<open>The stage after the role assumption, on credentials handed to it: with a broker
  that refuses the exchange the stage throws after the post and exports nothing; with
  a broker whose answer has no \<open>accessKeyId\<close> it does not throw, and exports what it
  got.\<close>

lemma exchange_brokerFailureWorld:
  "exchangeAndExport brokerFailureWorld (js ''us-east-1'') (js ''prod'')
       \<lparr>accessKeyId = Some (js ''ASIA''), secretAccessKey = Some (js ''secret''),
        sessionToken = Some (js ''session'')\<rparr> =
     (Inl (ServiceError (js ''Request failed with status code 403'')),
      [ Presign \<lparr> requestMethod = js ''GET'', protocol = js ''https:'',
                  hostname = js ''sts.us-east-1.amazonaws.com'', path = js ''/'',
                  headers = [(''host'', Some (js ''sts.us-east-1.amazonaws.com''))],
                  query = [(''Action'', js ''GetCallerIdentity''), (''Version'', js ''2011-06-15'')],
                  body = [] \<rparr>,
        AxiosPost []
          (js ''https://sts.us-east-1.amazonaws.com/?Action=GetCallerIdentity&Version=2011-06-15&X-Amz-Signature=5d6f'')
          (js ''prod'') ])"
proof -
  let ?c = "\<lparr>accessKeyId = Some (js ''ASIA''), secretAccessKey = Some (js ''secret''),
            sessionToken = Some (js ''session'')\<rparr>"
  have sign: "presignGetCallerIdentity brokerFailureWorld (js ''us-east-1'') ?c =
     (Inr (js ''https://sts.us-east-1.amazonaws.com/?Action=GetCallerIdentity&Version=2011-06-15&X-Amz-Signature=5d6f''),
       [Presign \<lparr> requestMethod = js ''GET'', protocol = js ''https:'',
                  hostname = js ''sts.us-east-1.amazonaws.com'', path = js ''/'',
                  headers = [(''host'', Some (js ''sts.us-east-1.amazonaws.com''))],
                  query = [(''Action'', js ''GetCallerIdentity''), (''Version'', js ''2011-06-15'')],
                  body = [] \<rparr>])"
    by (simp add: presignGetCallerIdentity_def example_defs world_defs header_def Let_def
        js_Cons js_Nil)
  have exchange: "getCredentials brokerFailureWorld
       (js ''https://sts.us-east-1.amazonaws.com/?Action=GetCallerIdentity&Version=2011-06-15&X-Amz-Signature=5d6f'')
       (js ''prod'') =
     (Inl (ServiceError (js ''Request failed with status code 403'')),
      [AxiosPost []
           (js ''https://sts.us-east-1.amazonaws.com/?Action=GetCallerIdentity&Version=2011-06-15&X-Amz-Signature=5d6f'')
           (js ''prod'')])"
    by (simp add: getCredentials_def world_defs exampleWorld_def LAMBDA_URL_def js_Nil)
  show ?thesis
    unfolding exchangeAndExport_def sign by (simp add: exchange)
qed




text \<open>
  Claim C3, as amended. \<open>getCredentials\<close> posts to the broker exactly once; the stage of
  \<open>run\<close> that signs, exchanges and exports makes at most one such post, and so does a
  whole run: the exchange is never retried. \<open>getCredentials\<close> fails with the broker's
  error when the call fails and with a \<open>TypeError\<close> when the response has no data; in
  every other case it succeeds and returns the three fields as the response has them, a
  missing field as \<open>undefined\<close>, without checking any of them.
\<close>

theorem getCredentials_exchange:
  "snd (getCredentials w url accountName) = [AxiosPost LAMBDA_URL url accountName]
   \<and> length (filter isAxiosPost (snd (exchangeAndExport w r accountName initialCredentials))) \<le> 1
   \<and> (\<forall>effects. run w = Some effects \<longrightarrow> length (filter isAxiosPost effects) \<le> 1)
   \<and> (\<forall>err. axiosPost w LAMBDA_URL url accountName = Inl err \<longrightarrow>
          fst (getCredentials w url accountName) = Inl err)
   \<and> (axiosPost w LAMBDA_URL url accountName = Inr NoData \<longrightarrow>
          isl (fst (getCredentials w url accountName)))
   \<and> (\<forall>keyId secret token.
          axiosPost w LAMBDA_URL url accountName = Inr (Data keyId secret token) \<longrightarrow>
          fst (getCredentials w url accountName) =
            Inr \<lparr>accessKeyId = keyId, secretAccessKey = secret, sessionToken = token\<rparr>)"
proof (intro conjI allI impI)
  show "snd (getCredentials w url accountName) = [AxiosPost LAMBDA_URL url accountName]"
    by (rule getCredentials_effects)
next
  show "length (filter isAxiosPost (snd (exchangeAndExport w r accountName initialCredentials))) \<le> 1"
    by (rule exchange_posts_once)
next
  fix effects
  assume ran: "run w = Some effects"
  then obtain out body where rb: "runBody w = Some (out, body)"
    and e: "effects = body \<or> (\<exists>m. effects = body @ [SetFailed m])"
    by (cases "runBody w") (auto simp: run_def split: sum.splits)
  from runBody_effects [OF rb] e show "length (filter isAxiosPost effects) \<le> 1"
    by auto
qed (simp_all add: getCredentials_def)

theorem getCredentials_exchange_witness:
  "getCredentials exampleWorld (js ''https://proof'') (js ''prod'')
     = (Inr \<lparr>accessKeyId = Some (js ''AKIA''), secretAccessKey = Some (js ''key''),
             sessionToken = Some (js ''final'')\<rparr>,
        [AxiosPost [] (js ''https://proof'') (js ''prod'')])
   \<and> getCredentials brokerFailureWorld (js ''https://proof'') (js ''prod'')
     = (Inl (ServiceError (js ''Request failed with status code 403'')),
        [AxiosPost [] (js ''https://proof'') (js ''prod'')])
   \<and> length (filter isAxiosPost
        (snd (exchangeAndExport brokerFailureWorld (js ''us-east-1'') (js ''prod'')
           \<lparr>accessKeyId = Some (js ''ASIA''), secretAccessKey = Some (js ''secret''),
            sessionToken = Some (js ''session'')\<rparr>))) = 1
   \<and> (\<exists>effects. run exampleWorld = Some effects \<and> length (filter isAxiosPost effects) = 0)"
proof -
  have a: "axiosPost exampleWorld LAMBDA_URL (js ''https://proof'') (js ''prod'')
      = Inr (Data (Some (js ''AKIA'')) (Some (js ''key'')) (Some (js ''final'')))"
    and b: "axiosPost brokerFailureWorld LAMBDA_URL (js ''https://proof'') (js ''prod'')
      = Inl (ServiceError (js ''Request failed with status code 403''))"
    by (simp_all add: exampleWorld_def brokerFailureWorld_def)
  have c: "filter isAxiosPost (concat (map (\<lambda>delay. [Debug m, Sleep delay]) delays)) = []" for m delays
    by (induction delays) simp_all
  from getCredentials_exchange [of exampleWorld "js ''https://proof''" "js ''prod''"]
    getCredentials_exchange [of brokerFailureWorld "js ''https://proof''" "js ''prod''"]
    a b c run_exampleWorld exchange_brokerFailureWorld
  show ?thesis
    by (simp add: prod_eq_iff LAMBDA_URL_def js_Nil run_def)
qed

text \<open>
  Claim C3, as stated, fails: when the broker answers with an object that has a
  \<open>secretAccessKey\<close> and no \<open>accessKeyId\<close>, \<open>getCredentials\<close> does not fail; it returns
  credentials whose access key id is \<open>undefined\<close>.
\<close>

theorem getCredentials_incomplete_counterexample:
  "axiosPost incompleteBrokerWorld LAMBDA_URL (js ''https://proof'') (js ''prod'')
     = Inr (Data None (Some (js ''key'')) None)
   \<and> getCredentials incompleteBrokerWorld (js ''https://proof'') (js ''prod'')
     = (Inr \<lparr>accessKeyId = None, secretAccessKey = Some (js ''key''), sessionToken = None\<rparr>,
        [AxiosPost LAMBDA_URL (js ''https://proof'') (js ''prod'')])"
  by (simp add: getCredentials_def incompleteBrokerWorld_def example_defs)

text \<open>
  Claim C6, as amended. When the region read from the input \<open>aws-region\<close> does not match
  \<open>^[a-z0-9-]+$\<close>, the run fails and reports the failure, having sent nothing to the STS
  service, the signer or the broker and having exported nothing. The identity token is
  requested from the platform before the region is checked: when the other inputs and
  \<open>GITHUB_REPOSITORY\<close> are there, that request is the only effect before the failure, and
  the message is \<open>Region is not valid: <region>\<close> if the token was issued and the error
  of the token request if it was not.
\<close>

theorem run_invalid_region:
  assumes "getInput w ''aws-region'' True = Inr r" and "\<not> matchesRegionRegex r"
  shows "\<exists>err effects.
           runBody w = Some (Inl err, effects)
         \<and> run w = Some (effects @ [SetFailed (message err)])
         \<and> \<not> list_ex isServiceCall effects
         \<and> \<not> list_ex isExportVariable effects
         \<and> (\<forall>audience accountName durationInput nameInput tokenFile.
               getInput w ''audience'' False = Inr audience
             \<and> getInput w ''account-name'' True = Inr accountName
             \<and> getInput w ''role-duration-seconds'' False = Inr durationInput
             \<and> getInput w ''role-session-name'' False = Inr nameInput
             \<and> getInput w ''web-identity-token-file'' False = Inr tokenFile
             \<and> isDefined (env w ''GITHUB_REPOSITORY'') \<longrightarrow>
                 effects = [GetIDToken audience]
               \<and> (\<forall>token. getIDToken w audience = Inr token \<longrightarrow>
                     err = Error (js ''Region is not valid: '' @ r))
               \<and> (\<forall>tokenError. getIDToken w audience = Inl tokenError \<longrightarrow> err = tokenError))"
proof -
  have "\<exists>err effects. runBody w = Some (Inl err, effects)
         \<and> \<not> list_ex isServiceCall effects
         \<and> \<not> list_ex isExportVariable effects
         \<and> (\<forall>audience accountName durationInput nameInput tokenFile.
               getInput w ''audience'' False = Inr audience
             \<and> getInput w ''account-name'' True = Inr accountName
             \<and> getInput w ''role-duration-seconds'' False = Inr durationInput
             \<and> getInput w ''role-session-name'' False = Inr nameInput
             \<and> getInput w ''web-identity-token-file'' False = Inr tokenFile
             \<and> isDefined (env w ''GITHUB_REPOSITORY'') \<longrightarrow>
                 effects = [GetIDToken audience]
               \<and> (\<forall>token. getIDToken w audience = Inr token \<longrightarrow>
                     err = Error (js ''Region is not valid: '' @ r))
               \<and> (\<forall>tokenError. getIDToken w audience = Inl tokenError \<longrightarrow> err = tokenError))"
    using assms
    by (simp add: runBody_def getRoleToAssume_def split: sum.splits)
  then show ?thesis
    by (auto simp: run_def)
qed

theorem run_invalid_region_witness:
  "getInput invalidRegionWorld ''aws-region'' True = Inr (js ''US-EAST-1'')
   \<and> \<not> matchesRegionRegex (js ''US-EAST-1'')
   \<and> getIDToken invalidRegionWorld [] = Inr (js ''token'')
   \<and> run invalidRegionWorld =
       Some [GetIDToken [], SetFailed (js ''Region is not valid: US-EAST-1'')]"
proof -
  have a: "getInput invalidRegionWorld ''aws-region'' True = Inr (js ''US-EAST-1'')"
    and b: "\<not> matchesRegionRegex (js ''US-EAST-1'')"
    by (simp_all add: invalidRegionWorld_def exampleWorld_def matchesRegionRegex_def
        regionChar_def js_Cons)
  from run_invalid_region [OF a b] a b show ?thesis
    by (auto simp: invalidRegionWorld_def example_defs isDefined_def js_Cons js_Nil)
qed

text \<open>
  Claim C6, as stated, fails: with the region \<open>US-EAST-1\<close> and a platform that cannot
  issue the identity token, the run has already made the token request when it fails,
  and the message it reports is that of the token request, which does not name the
  region.
\<close>

theorem run_invalid_region_counterexample:
  "getInput tokenFailureWorld ''aws-region'' True = Inr (js ''US-EAST-1'')
   \<and> \<not> matchesRegionRegex (js ''US-EAST-1'')
   \<and> run tokenFailureWorld =
       Some [GetIDToken [],
             SetFailed (js ''Unable to get ACTIONS_ID_TOKEN_REQUEST_URL env variable'')]"
  by (simp add: run_def runBody_def getRoleToAssume_def tokenFailureWorld_def
      invalidRegionWorld_def example_defs matchesRegionRegex_def regionChar_def
      isDefined_def js_Cons js_Nil)

end
